theory Spec2Isabelle
  imports Complex_Main "HOL-Library.Multiset"
begin

section \<open>Data model (src/types.ts)\<close>

text \<open>
  JavaScript numbers are modelled as real numbers: every arithmetic step of the program
  is taken exactly, so rounding error of IEEE doubles, NaN and the infinities are outside
  the model. \<open>pageIndex\<close> is an integer (the application only ever stores the current
  1-based page number in it). The fields \<open>id\<close>, \<open>x\<close> and \<open>y\<close> of the source are named
  \<open>ann_id\<close>, \<open>ann_x\<close> and \<open>ann_y\<close> here.
\<close>

record AnnotationPoint =
  ann_id :: string
  pageIndex :: int
  ann_x :: real
  ann_y :: real
  displayX :: real
  displayY :: real

record PageDimensions =
  width :: real
  height :: real

datatype CoordinateOrigin = BOTTOM_LEFT | TOP_LEFT | TOP_RIGHT | BOTTOM_RIGHT

section \<open>Numbers in label text\<close>

text \<open>
  \<open>Math.round\<close> returns the nearest integer, a tie going towards plus infinity.
  A template literal prints an integer of magnitude below \<open>10^21\<close> in decimal, with a
  leading minus sign when negative (and prints \<open>-0\<close> as \<open>0\<close>); larger magnitudes, which
  JavaScript prints in exponent notation, are outside the model.
\<close>

definition Math_round :: "real \<Rightarrow> int" where
  "Math_round v = \<lfloor>v + 1 / 2\<rfloor>"

fun digits :: "nat \<Rightarrow> string" where
  "digits n =
     (if n < 10 then [''0123456789'' ! n]
      else digits (n div 10) @ [''0123456789'' ! (n mod 10)])"

definition numberToString :: "int \<Rightarrow> string" where
  "numberToString n = (if n < 0 then CHR ''-'' # digits (nat (- n)) else digits (nat n))"

definition labelText :: "real \<Rightarrow> real \<Rightarrow> string" where
  "labelText vx vy =
     ''x:'' @ numberToString (Math_round vx) @ '', y:'' @ numberToString (Math_round vy)"

section \<open>Origin conversions of the sidebar (src/App.tsx)\<close>

text \<open>
  \<open>pageDimensions\<close> is the application's \<open>Record<number, PageDimensions>\<close>: a
  partial map from page numbers to dimensions, empty until the document has been parsed.
\<close>

definition getDisplayCoordinates ::
  "(int \<rightharpoonup> PageDimensions) \<Rightarrow> CoordinateOrigin \<Rightarrow> AnnotationPoint \<Rightarrow> real \<times> real" where
  "getDisplayCoordinates pageDimensions origin ann =
     (case pageDimensions (pageIndex ann) of
        None \<Rightarrow> (ann_x ann, ann_y ann)
      | Some dims \<Rightarrow>
          (case origin of
             TOP_LEFT \<Rightarrow> (ann_x ann, height dims - ann_y ann)
           | TOP_RIGHT \<Rightarrow> (width dims - ann_x ann, height dims - ann_y ann)
           | BOTTOM_RIGHT \<Rightarrow> (width dims - ann_x ann, ann_y ann)
           | BOTTOM_LEFT \<Rightarrow> (ann_x ann, ann_y ann)))"

text \<open>
  The callback that \<open>updateAnnotationFromDisplay\<close> maps over the annotation list;
  \<open>None\<close> for \<open>newX\<close> or \<open>newY\<close> is the source's \<open>null\<close> (that axis is not edited).
\<close>

definition updateFromDisplayStep ::
  "(int \<rightharpoonup> PageDimensions) \<Rightarrow> CoordinateOrigin \<Rightarrow> string \<Rightarrow> real option \<Rightarrow> real option
     \<Rightarrow> AnnotationPoint \<Rightarrow> AnnotationPoint" where
  "updateFromDisplayStep pageDimensions origin i newX newY ann =
     (if ann_id ann \<noteq> i then ann
      else case pageDimensions (pageIndex ann) of
        None \<Rightarrow> ann
      | Some dims \<Rightarrow>
          (let canonicalX =
                 (case newX of
                    None \<Rightarrow> ann_x ann
                  | Some nx \<Rightarrow>
                      (case origin of
                         TOP_RIGHT \<Rightarrow> width dims - nx
                       | BOTTOM_RIGHT \<Rightarrow> width dims - nx
                       | _ \<Rightarrow> nx));
               canonicalY =
                 (case newY of
                    None \<Rightarrow> ann_y ann
                  | Some ny \<Rightarrow>
                      (case origin of
                         TOP_LEFT \<Rightarrow> height dims - ny
                       | TOP_RIGHT \<Rightarrow> height dims - ny
                       | _ \<Rightarrow> ny));
               cssDisplayY = height dims - canonicalY;
               cssDisplayX = canonicalX
           in ann\<lparr>ann_x := canonicalX, ann_y := canonicalY,
                   displayX := cssDisplayX, displayY := cssDisplayY\<rparr>))"

definition updateAnnotationFromDisplay ::
  "(int \<rightharpoonup> PageDimensions) \<Rightarrow> CoordinateOrigin \<Rightarrow> string \<Rightarrow> real option \<Rightarrow> real option
     \<Rightarrow> AnnotationPoint list \<Rightarrow> AnnotationPoint list" where
  "updateAnnotationFromDisplay pageDimensions origin i newX newY prev =
     map (updateFromDisplayStep pageDimensions origin i newX newY) prev"

section \<open>Label text of the canvas (src/components/PdfCanvas.tsx)\<close>

text \<open>
  The component receives the dimensions of the page it shows, or \<open>null\<close>
  (\<open>None\<close>) when they are not known yet.
\<close>

definition getLabelText ::
  "PageDimensions option \<Rightarrow> CoordinateOrigin \<Rightarrow> AnnotationPoint \<Rightarrow> string" where
  "getLabelText pageDimensions origin ann =
     (case pageDimensions of
        None \<Rightarrow> labelText (ann_x ann) (ann_y ann)
      | Some dims \<Rightarrow>
          (let (lx, ly) =
                 (case origin of
                    TOP_LEFT \<Rightarrow> (ann_x ann, height dims - ann_y ann)
                  | TOP_RIGHT \<Rightarrow> (width dims - ann_x ann, height dims - ann_y ann)
                  | BOTTOM_RIGHT \<Rightarrow> (width dims - ann_x ann, ann_y ann)
                  | BOTTOM_LEFT \<Rightarrow> (ann_x ann, ann_y ann))
           in labelText lx ly))"

section \<open>Dragging and clicking on the canvas (src/components/PdfCanvas.tsx)\<close>

record DragState =
  drag_id :: string
  startX :: real
  startY :: real
  initialPdfX :: real
  initialPdfY :: real

text \<open>
  \<open>handleWindowMouseMove\<close> computes the arguments it passes to
  \<open>onUpdateAnnotationPosition\<close>. The zoom factor \<open>scale\<close> is kept within
  \<open>[0.5, 3]\<close> by the application, so the divisions are by a positive number.
\<close>

definition handleWindowMouseMove ::
  "real \<Rightarrow> PageDimensions option \<Rightarrow> DragState \<Rightarrow> real \<Rightarrow> real \<Rightarrow> string \<times> real \<times> real" where
  "handleWindowMouseMove scale pageDimensions dragState clientX clientY =
     (let deltaX = clientX - startX dragState;
          deltaY = clientY - startY dragState;
          pdfDeltaX = deltaX / scale;
          pdfDeltaY = - (deltaY / scale);
          newX = initialPdfX dragState + pdfDeltaX;
          newY = initialPdfY dragState + pdfDeltaY
      in case pageDimensions of
           None \<Rightarrow> (drag_id dragState, newX, newY)
         | Some dims \<Rightarrow>
             (drag_id dragState,
              max 0 (min newX (width dims)),
              max 0 (min newY (height dims))))"

text \<open>
  The bounding rectangle of the rendered page, in screen pixels; \<open>None\<close> when the
  container is not mounted. The fresh identifier (random in the source) is a parameter.
\<close>

record DOMRect =
  rect_left :: real
  rect_top :: real
  rect_height :: real

definition handleClick ::
  "bool \<Rightarrow> real \<Rightarrow> real \<Rightarrow> DOMRect option \<Rightarrow> int \<Rightarrow> real \<Rightarrow> string \<Rightarrow> real \<Rightarrow> real
     \<Rightarrow> AnnotationPoint option" where
  "handleClick isPanning now lastDragEndTime container pageNumber scale freshId clientX clientY =
     (if isPanning then None
      else if now - lastDragEndTime < 100 then None
      else case container of
        None \<Rightarrow> None
      | Some rect \<Rightarrow>
          (let offsetX = clientX - rect_left rect;
               offsetY = clientY - rect_top rect;
               unscaledX = offsetX / scale;
               unscaledY = offsetY / scale;
               pageHeightPoints = rect_height rect / scale;
               pdfX = unscaledX;
               pdfY = pageHeightPoints - unscaledY
           in Some \<lparr>ann_id = freshId, pageIndex = pageNumber, ann_x = pdfX, ann_y = pdfY,
                     displayX = unscaledX, displayY = unscaledY\<rparr>))"

section \<open>The annotation list (src/App.tsx)\<close>

definition handleAddAnnotation :: "AnnotationPoint \<Rightarrow> AnnotationPoint list \<Rightarrow> AnnotationPoint list" where
  "handleAddAnnotation ann prev = prev @ [ann]"

definition handleDeleteAnnotation :: "string \<Rightarrow> AnnotationPoint list \<Rightarrow> AnnotationPoint list" where
  "handleDeleteAnnotation i prev = filter (\<lambda>a. ann_id a \<noteq> i) prev"

text \<open>The callback that \<open>handleUpdateAnnotationPosition\<close> maps over the list.\<close>

definition updatePositionStep ::
  "(int \<rightharpoonup> PageDimensions) \<Rightarrow> string \<Rightarrow> real \<Rightarrow> real \<Rightarrow> AnnotationPoint \<Rightarrow> AnnotationPoint" where
  "updatePositionStep pageDimensions i nx ny ann =
     (if ann_id ann \<noteq> i then ann
      else
        (let dX = nx;
             dY = (case pageDimensions (pageIndex ann) of
                     None \<Rightarrow> displayY ann
                   | Some dims \<Rightarrow> height dims - ny)
         in ann\<lparr>ann_x := nx, ann_y := ny, displayX := dX, displayY := dY\<rparr>))"

definition handleUpdateAnnotationPosition ::
  "(int \<rightharpoonup> PageDimensions) \<Rightarrow> string \<Rightarrow> real \<Rightarrow> real \<Rightarrow> AnnotationPoint list
     \<Rightarrow> AnnotationPoint list" where
  "handleUpdateAnnotationPosition pageDimensions i nx ny prev =
     map (updatePositionStep pageDimensions i nx ny) prev"

text \<open>
  The wiring of the render function: the canvas of page \<open>pageNumber\<close> is given
  \<open>pageDimensions[pageNumber] || null\<close> and \<open>handleUpdateAnnotationPosition\<close> as its
  callback, so one mouse move of a drag is the composition below.
\<close>

definition dragMove ::
  "(int \<rightharpoonup> PageDimensions) \<Rightarrow> int \<Rightarrow> real \<Rightarrow> DragState \<Rightarrow> real \<Rightarrow> real \<Rightarrow> AnnotationPoint list
     \<Rightarrow> AnnotationPoint list" where
  "dragMove pageDimensions pageNumber scale dragState clientX clientY prev =
     (case handleWindowMouseMove scale (pageDimensions pageNumber) dragState clientX clientY of
        (i, nx, ny) \<Rightarrow> handleUpdateAnnotationPosition pageDimensions i nx ny prev)"

subsection \<open>The ordered view\<close>

text \<open>The comparison function given to \<open>sort\<close>; the caller looks at its sign only.\<close>

definition compareAnnotations :: "AnnotationPoint \<Rightarrow> AnnotationPoint \<Rightarrow> real" where
  "compareAnnotations a b =
     (if pageIndex a \<noteq> pageIndex b then real_of_int (pageIndex a - pageIndex b)
      else
        (let yDiff = ann_y b - ann_y a
         in if \<bar>yDiff\<bar> > 2 then yDiff else ann_x a - ann_x b))"

text \<open>
  \<open>Array.prototype.sort\<close> belongs to the language, not to the repository, and its
  algorithm differs between engines; it is the parameter \<open>sortFn\<close> of the ordered view.
\<close>

definition sortedAnnotations ::
  "((AnnotationPoint \<Rightarrow> AnnotationPoint \<Rightarrow> real) \<Rightarrow> AnnotationPoint list \<Rightarrow> AnnotationPoint list)
     \<Rightarrow> AnnotationPoint list \<Rightarrow> AnnotationPoint list" where
  "sortedAnnotations sortFn annotations = sortFn compareAnnotations annotations"





text \<open>
  The ordering rule in the specification's words: page number ascending; on one page the
  higher point first when the two heights differ by more than 2 points, otherwise the
  point further left first.
\<close>

definition readingOrder :: "AnnotationPoint \<Rightarrow> AnnotationPoint \<Rightarrow> bool" where
  "readingOrder a b =
     (pageIndex a < pageIndex b \<or>
      (pageIndex a = pageIndex b \<and>
       (if \<bar>ann_y a - ann_y b\<bar> > 2 then ann_y a > ann_y b else ann_x a \<le> ann_x b)))"


section \<open>The exporter (src/services/pdfModifier.ts)\<close>

text \<open>
  The PDF library is outside the repository. A loaded document is modelled as the list of
  its pages; a page has its size and the drawing operations appended to it so far. The
  font's metrics, and the three library calls that can fail (\<open>PDFDocument.load\<close>,
  \<open>embedFont\<close>, \<open>save\<close>), are parameters.
\<close>

datatype Color = rgb real real real

datatype DrawOp =
    DrawCircle real real real Color real
      \<comment> \<open>x, y, size, color, borderWidth\<close>
  | DrawRectangle real real real real Color
      \<comment> \<open>x, y, width, height, color\<close>
  | DrawText string real real real Color
      \<comment> \<open>text, x, y, size, color\<close>

record PDFPage =
  pageWidth :: real
  pageHeight :: real
  operations :: "DrawOp list"

record PDFFont =
  widthOfTextAtSize :: "string \<Rightarrow> real \<Rightarrow> real"
  heightAtSize :: "real \<Rightarrow> real"

record ('b, 'e) PdfLib =
  load :: "'b \<Rightarrow> 'e + PDFPage list"
  embedFont :: "PDFPage list \<Rightarrow> 'e + PDFFont"
  save :: "PDFPage list \<Rightarrow> 'e + 'b"

definition DOT_RADIUS :: real where "DOT_RADIUS = 3"
definition CORNER_RADIUS :: real where "CORNER_RADIUS = 3"
definition TEXT_SIZE :: real where "TEXT_SIZE = 8"
definition PADDING :: real where "PADDING = 2"
definition RED_COLOR :: Color where "RED_COLOR = rgb (8 / 10) (1 / 10) (1 / 10)"
definition WHITE_COLOR :: Color where "WHITE_COLOR = rgb 1 1 1"

text \<open>
  Step 4 of the loop body: where the label box goes. The source computes it inline with
  the dot radius \<open>DOT_RADIUS\<close>; the radius is a parameter here.
\<close>

definition labelBoxOrigin ::
  "real \<Rightarrow> real \<Rightarrow> real \<Rightarrow> real \<Rightarrow> real \<Rightarrow> real \<Rightarrow> real \<Rightarrow> real \<times> real" where
  "labelBoxOrigin r px py boxWidth boxHeight pw ph =
     (let boxX = px + r;
          boxY = py + r;
          boxX = (if boxX + boxWidth > pw then px - r - boxWidth else boxX);
          boxY = (if boxY + boxHeight > ph then py - r - boxHeight else boxY)
      in (boxX, boxY))"

text \<open>Step 1 of the loop body: the coordinates printed in the label.\<close>

definition exportDisplayCoordinates ::
  "CoordinateOrigin \<Rightarrow> real \<Rightarrow> real \<Rightarrow> AnnotationPoint \<Rightarrow> real \<times> real" where
  "exportDisplayCoordinates origin pw ph ann =
     (case origin of
        TOP_LEFT \<Rightarrow> (ann_x ann, ph - ann_y ann)
      | TOP_RIGHT \<Rightarrow> (pw - ann_x ann, ph - ann_y ann)
      | BOTTOM_RIGHT \<Rightarrow> (pw - ann_x ann, ann_y ann)
      | BOTTOM_LEFT \<Rightarrow> (ann_x ann, ann_y ann))"

text \<open>
  The body of \<open>pageAnns.forEach\<close>: the drawing operations of one annotation on a page
  of size \<open>pw\<close> by \<open>ph\<close>, in the order the source issues them.
\<close>

definition drawAnnotation ::
  "PDFFont \<Rightarrow> CoordinateOrigin \<Rightarrow> real \<Rightarrow> real \<Rightarrow> AnnotationPoint \<Rightarrow> DrawOp list" where
  "drawAnnotation helveticaFont origin pw ph ann =
     (let (dispX, dispY) = exportDisplayCoordinates origin pw ph ann;
          label = labelText dispX dispY;
          textWidth = widthOfTextAtSize helveticaFont label TEXT_SIZE;
          textHeight = heightAtSize helveticaFont TEXT_SIZE;
          boxWidth = textWidth + PADDING * 2;
          boxHeight = textHeight + PADDING * 2;
          (boxX, boxY) =
            labelBoxOrigin DOT_RADIUS (ann_x ann) (ann_y ann) boxWidth boxHeight pw ph
      in [DrawCircle (ann_x ann) (ann_y ann) DOT_RADIUS RED_COLOR 0,
          DrawRectangle boxX (boxY + CORNER_RADIUS) boxWidth (boxHeight - 2 * CORNER_RADIUS)
            RED_COLOR,
          DrawRectangle (boxX + CORNER_RADIUS) boxY (boxWidth - 2 * CORNER_RADIUS) boxHeight
            RED_COLOR,
          DrawCircle (boxX + CORNER_RADIUS) (boxY + CORNER_RADIUS) CORNER_RADIUS RED_COLOR 0,
          DrawCircle (boxX + boxWidth - CORNER_RADIUS) (boxY + CORNER_RADIUS) CORNER_RADIUS
            RED_COLOR 0,
          DrawCircle (boxX + boxWidth - CORNER_RADIUS) (boxY + boxHeight - CORNER_RADIUS)
            CORNER_RADIUS RED_COLOR 0,
          DrawCircle (boxX + CORNER_RADIUS) (boxY + boxHeight - CORNER_RADIUS) CORNER_RADIUS
            RED_COLOR 0,
          DrawText label (boxX + PADDING) (boxY + PADDING + 15 / 10) TEXT_SIZE WHITE_COLOR])"

text \<open>
  Grouping: \<open>annotationsByPage\<close> is an object keyed by page number; the association
  list keeps its keys in the order they were first inserted.
\<close>

fun pushAnnotation ::
  "(int \<times> AnnotationPoint list) list \<Rightarrow> AnnotationPoint \<Rightarrow> (int \<times> AnnotationPoint list) list" where
  "pushAnnotation [] ann = [(pageIndex ann, [ann])]"
| "pushAnnotation ((k, g) # rest) ann =
     (if k = pageIndex ann then (k, g @ [ann]) # rest
      else (k, g) # pushAnnotation rest ann)"

definition annotationsByPage ::
  "AnnotationPoint list \<Rightarrow> (int \<times> AnnotationPoint list) list" where
  "annotationsByPage annotations = foldl pushAnnotation [] annotations"

text \<open>
  \<open>Object.keys\<close> lists the keys that are array indices (integers from \<open>0\<close> to
  \<open>2^32 - 2\<close>) in ascending order, then the other keys in insertion order.
\<close>

definition isArrayIndex :: "int \<Rightarrow> bool" where
  "isArrayIndex k = (0 \<le> k \<and> k < 2 ^ 32 - 1)"

definition objectKeys :: "(int \<times> 'a) list \<Rightarrow> int list" where
  "objectKeys entries =
     (let ks = map fst entries
      in sort (filter isArrayIndex ks) @ filter (\<lambda>k. \<not> isArrayIndex k) ks)"

text \<open>
  A key is the page number as the language writes it, and the loop reads it back with
  \<open>parseInt(pageIdxStr, 10)\<close>. An integer below \<open>10^21\<close> in magnitude is written in
  decimal and reads back as itself. From \<open>10^21\<close> on it is written in exponent
  notation (\<open>1e+21\<close>), of which \<open>parseInt\<close> reads only the signed digit in front; that
  digit comes from the shortest decimal form of the number and is the parameter
  \<open>mantissaDigit\<close>.
\<close>

definition parseIntOfKey :: "(int \<Rightarrow> int) \<Rightarrow> int \<Rightarrow> int" where
  "parseIntOfKey mantissaDigit k = (if \<bar>k\<bar> < 10 ^ 21 then k else mantissaDigit k)"

text \<open>
  One round of the loop over the keys. The guard skips a parsed page number that is not
  a page of the document. Otherwise the group is looked up under the parsed number; when
  there is none, \<open>pageAnns\<close> is undefined and \<open>pageAnns.forEach\<close> throws (the result
  \<open>None\<close>); when there is one, the operations of its annotations are appended to the
  page.
\<close>

definition processPage ::
  "(int \<Rightarrow> int) \<Rightarrow> PDFFont \<Rightarrow> CoordinateOrigin \<Rightarrow> (int \<times> AnnotationPoint list) list
     \<Rightarrow> PDFPage list \<Rightarrow> int \<Rightarrow> PDFPage list option" where
  "processPage mantissaDigit helveticaFont origin groups pages pageIdxStr =
     (let pageIndex0 = parseIntOfKey mantissaDigit pageIdxStr - 1
      in if pageIndex0 \<ge> 0 \<and> pageIndex0 < int (length pages) then
           (let page = pages ! nat pageIndex0
            in case map_of groups (parseIntOfKey mantissaDigit pageIdxStr) of
                 None \<Rightarrow> None
               | Some pageAnns \<Rightarrow>
                   (let pw = pageWidth page;
                        ph = pageHeight page
                    in Some (pages[nat pageIndex0 :=
                         page\<lparr>operations := operations page @
                           concat (map (drawAnnotation helveticaFont origin pw ph) pageAnns)\<rparr>])))
         else Some pages)"

text \<open>The loop over the keys stops at the first round that throws.\<close>

fun processKeys ::
  "(int \<Rightarrow> int) \<Rightarrow> PDFFont \<Rightarrow> CoordinateOrigin \<Rightarrow> (int \<times> AnnotationPoint list) list
     \<Rightarrow> int list \<Rightarrow> PDFPage list \<Rightarrow> PDFPage list option" where
  "processKeys mantissaDigit helveticaFont origin groups [] pages = Some pages"
| "processKeys mantissaDigit helveticaFont origin groups (k # ks) pages =
     (case processPage mantissaDigit helveticaFont origin groups pages k of
        None \<Rightarrow> None
      | Some pages' \<Rightarrow> processKeys mantissaDigit helveticaFont origin groups ks pages')"

definition drawAnnotations ::
  "(int \<Rightarrow> int) \<Rightarrow> PDFFont \<Rightarrow> CoordinateOrigin \<Rightarrow> AnnotationPoint list \<Rightarrow> PDFPage list
     \<Rightarrow> PDFPage list option" where
  "drawAnnotations mantissaDigit helveticaFont origin annotations pages =
     processKeys mantissaDigit helveticaFont origin (annotationsByPage annotations)
       (objectKeys (annotationsByPage annotations)) pages"

text \<open>
  The export. Every exception inside the \<open>try\<close> block is caught and replaced by the one
  error \<open>Failed to save annotated PDF.\<close>; on success the browser is handed the saved
  bytes under the name \<open>annotated_\<close> followed by the file name. What can fail are the
  three library calls of \<open>PdfLib\<close> and the loop over the keys; the drawing calls are
  given numbers and a plain-text label and always succeed.
\<close>

datatype ExportError = SaveFailed

definition saveAnnotatedPdf ::
  "(int \<Rightarrow> int) \<Rightarrow> ('b, 'e) PdfLib \<Rightarrow> 'b \<Rightarrow> AnnotationPoint list \<Rightarrow> string \<Rightarrow> CoordinateOrigin
     \<Rightarrow> ExportError + (string \<times> 'b)" where
  "saveAnnotatedPdf mantissaDigit lib originalPdfBytes annotations fileName origin =
     (case load lib originalPdfBytes of
        Inl e \<Rightarrow> Inl SaveFailed
      | Inr pages \<Rightarrow>
          (case embedFont lib pages of
             Inl e \<Rightarrow> Inl SaveFailed
           | Inr helveticaFont \<Rightarrow>
               (case drawAnnotations mantissaDigit helveticaFont origin annotations pages of
                  None \<Rightarrow> Inl SaveFailed
                | Some drawn \<Rightarrow>
                    (case save lib drawn of
                       Inl e \<Rightarrow> Inl SaveFailed
                     | Inr modifiedPdfBytes \<Rightarrow>
                         Inr (''annotated_'' @ fileName, modifiedPdfBytes)))))"

section \<open>Reference definitions for the properties\<close>

text \<open>
  The four-origin table in the specification's words: the coordinates of the canonical
  point \<open>(px, py)\<close> under an origin convention, on a page of dimensions \<open>d\<close>.
\<close>

fun userFrameTable :: "CoordinateOrigin \<Rightarrow> PageDimensions \<Rightarrow> real \<times> real \<Rightarrow> real \<times> real" where
  "userFrameTable BOTTOM_LEFT d (px, py) = (px, py)"
| "userFrameTable TOP_LEFT d (px, py) = (px, height d - py)"
| "userFrameTable TOP_RIGHT d (px, py) = (width d - px, height d - py)"
| "userFrameTable BOTTOM_RIGHT d (px, py) = (width d - px, py)"

text \<open>The texts among a list of drawing operations, in order.\<close>

fun opText :: "DrawOp \<Rightarrow> string option" where
  "opText (DrawText t _ _ _ _) = Some t"
| "opText _ = None"

definition drawnTexts :: "DrawOp list \<Rightarrow> string list" where
  "drawnTexts ops = List.map_filter opText ops"

text \<open>
  The cache invariant of an annotation, for a page height: the cached view position is
  the canonical position seen from the top-left corner.
\<close>

definition displayInSync :: "real \<Rightarrow> AnnotationPoint \<Rightarrow> bool" where
  "displayInSync pageHeightPoints ann =
     (displayX ann = ann_x ann \<and> displayY ann = pageHeightPoints - ann_y ann)"

text \<open>
  A stand-in for the PDF library, to run the exporter on concrete inputs: a document of
  one blank 612 by 792 page, a font with simple metrics, and saved bytes that record how
  many operations each page holds. Each flag makes the corresponding call fail.
\<close>

definition stubFont :: PDFFont where
  "stubFont = \<lparr>widthOfTextAtSize = (\<lambda>t s. real (length t) * s / 2), heightAtSize = (\<lambda>s. s)\<rparr>"

definition stubLib :: "bool \<Rightarrow> bool \<Rightarrow> bool \<Rightarrow> (nat list, string) PdfLib" where
  "stubLib okLoad okFont okSave =
     \<lparr>load = (\<lambda>b. if okLoad then Inr [\<lparr>pageWidth = 612, pageHeight = 792, operations = []\<rparr>]
                   else Inl ''parse''),
      embedFont = (\<lambda>ps. if okFont then Inr stubFont else Inl ''font''),
      save = (\<lambda>ps. if okSave then Inr (map (\<lambda>p. length (operations p)) ps) else Inl ''save'')\<rparr>"

text \<open>
  The group stored under a key of \<open>annotationsByPage\<close> (empty when the key is absent),
  and the marker of an annotation being among the operations of a page.
\<close>

definition groupOf :: "(int \<times> 'a list) list \<Rightarrow> int \<Rightarrow> 'a list" where
  "groupOf entries k = (case map_of entries k of None \<Rightarrow> [] | Some g \<Rightarrow> g)"

definition markerOn :: "PDFPage \<Rightarrow> AnnotationPoint \<Rightarrow> bool" where
  "markerOn page ann =
     (DrawCircle (ann_x ann) (ann_y ann) DOT_RADIUS RED_COLOR 0 \<in> set (operations page))"

text \<open>
  A stand-in for the digit in front of the exponent notation of a page number: the signed
  leading decimal digit. It is that digit whenever the shortest decimal form of the
  number starts as its exact value does, as for \<open>10^21\<close>, written \<open>1e+21\<close>.
\<close>

fun leadingDigitNat :: "nat \<Rightarrow> nat" where
  "leadingDigitNat n = (if n < 10 then n else leadingDigitNat (n div 10))"

definition leadingDigit :: "int \<Rightarrow> int" where
  "leadingDigit k = sgn k * int (leadingDigitNat (nat \<bar>k\<bar>))"

section \<open>Origin conversions\<close>

lemma getDisplayCoordinates_known:
  "pageDimensions (pageIndex ann) = Some dims \<Longrightarrow>
   getDisplayCoordinates pageDimensions origin ann = userFrameTable origin dims (ann_x ann, ann_y ann)"
  by (cases origin) (simp_all add: getDisplayCoordinates_def)

lemma updateFromDisplayStep_known:
  "pageDimensions (pageIndex ann) = Some dims \<Longrightarrow>
   updateFromDisplayStep pageDimensions origin (ann_id ann) (Some nx) (Some ny) ann =
     ann\<lparr>ann_x := fst (userFrameTable origin dims (nx, ny)),
         ann_y := snd (userFrameTable origin dims (nx, ny)),
         displayX := fst (userFrameTable origin dims (nx, ny)),
         displayY := height dims - snd (userFrameTable origin dims (nx, ny))\<rparr>"
  by (cases origin) (simp_all add: updateFromDisplayStep_def Let_def)

lemma userFrameTable_self_inverse:
  "userFrameTable origin d (userFrameTable origin d p) = p"
  by (cases origin; cases p) simp_all

text \<open>
  Claim C1. Round trip, in both directions, for every origin convention and every
  annotation whose page has known dimensions. Writing the annotation's coordinates in the
  user's frame (\<open>getDisplayCoordinates\<close>) and entering them back as a coordinate-field
  edit (\<open>updateAnnotationFromDisplay\<close>) gives the canonical point again, whether both
  fields are entered at once or one after the other. Entering any values and reading the
  annotation back in the user's frame gives the values entered; an edit of one field
  changes that coordinate to the value entered and leaves the other as it was. The edit
  applies the same formulas as the display: its canonical result is the display
  conversion of the entered values. On a 612 by 792 page, entering \<open>X = 5\<close> under the
  top-right origin stores \<open>x = 607\<close>. Numbers are real numbers here, so the equalities
  are exact.
\<close>

theorem round_trip_user_frame:
  assumes "pageDimensions (pageIndex ann) = Some dims"
    and "k < length prev" and "prev ! k = ann"
    and "getDisplayCoordinates pageDimensions origin ann = (ux, uy)"
  shows "(let edited = updateAnnotationFromDisplay pageDimensions origin (ann_id ann)
                         (Some ux) (Some uy) prev ! k
          in ann_x edited = ann_x ann \<and> ann_y edited = ann_y ann)
       \<and> (let editedX = updateFromDisplayStep pageDimensions origin (ann_id ann) (Some ux) None ann;
               editedXY = updateFromDisplayStep pageDimensions origin (ann_id ann) None (Some uy) editedX
          in ann_x editedXY = ann_x ann \<and> ann_y editedXY = ann_y ann)
       \<and> (let moved = updateFromDisplayStep pageDimensions origin (ann_id ann) (Some nx) (Some ny) ann
          in (ann_x moved, ann_y moved) =
               getDisplayCoordinates pageDimensions origin (ann\<lparr>ann_x := nx, ann_y := ny\<rparr>))
       \<and> getDisplayCoordinates pageDimensions origin
            (updateAnnotationFromDisplay pageDimensions origin (ann_id ann) (Some nx) (Some ny) prev ! k)
          = (nx, ny)
       \<and> getDisplayCoordinates pageDimensions origin
            (updateAnnotationFromDisplay pageDimensions origin (ann_id ann) (Some nx) None prev ! k)
          = (nx, uy)
       \<and> getDisplayCoordinates pageDimensions origin
            (updateAnnotationFromDisplay pageDimensions origin (ann_id ann) None (Some ny) prev ! k)
          = (ux, ny)
       \<and> updateAnnotationFromDisplay [1 \<mapsto> \<lparr>width = 612, height = 792\<rparr>] TOP_RIGHT ''p''
            (Some 5) None
            [\<lparr>ann_id = ''p'', pageIndex = 1, ann_x = 100, ann_y = 700,
              displayX = 100, displayY = 92\<rparr>]
          = [\<lparr>ann_id = ''p'', pageIndex = 1, ann_x = 607, ann_y = 700,
              displayX = 607, displayY = 92\<rparr>]"
proof -
  have nth: "updateAnnotationFromDisplay pageDimensions origin (ann_id ann) newX newY prev ! k
      = updateFromDisplayStep pageDimensions origin (ann_id ann) newX newY ann" for newX newY
    using assms(2,3) by (simp add: updateAnnotationFromDisplay_def)
  have u: "userFrameTable origin dims (ann_x ann, ann_y ann) = (ux, uy)"
    using assms(1,4) by (simp add: getDisplayCoordinates_known)
  have inv: "userFrameTable origin dims (ux, uy) = (ann_x ann, ann_y ann)"
    using userFrameTable_self_inverse[of origin dims "(ann_x ann, ann_y ann)"] u by simp
  have c1: "ann_x (updateFromDisplayStep pageDimensions origin (ann_id ann) (Some ux) (Some uy) ann) = ann_x ann
          \<and> ann_y (updateFromDisplayStep pageDimensions origin (ann_id ann) (Some ux) (Some uy) ann) = ann_y ann"
    using assms(1) inv by (simp add: updateFromDisplayStep_known)
  have c2: "let editedX = updateFromDisplayStep pageDimensions origin (ann_id ann) (Some ux) None ann;
               editedXY = updateFromDisplayStep pageDimensions origin (ann_id ann) None (Some uy) editedX
          in ann_x editedXY = ann_x ann \<and> ann_y editedXY = ann_y ann"
    using assms(1) u by (cases origin) (auto simp add: updateFromDisplayStep_def Let_def)
  have c3: "let moved = updateFromDisplayStep pageDimensions origin (ann_id ann) (Some nx) (Some ny) ann
          in (ann_x moved, ann_y moved) =
               getDisplayCoordinates pageDimensions origin (ann\<lparr>ann_x := nx, ann_y := ny\<rparr>)"
    using assms(1) by (cases origin) (simp_all add: updateFromDisplayStep_def getDisplayCoordinates_def Let_def)
  have c4: "getDisplayCoordinates pageDimensions origin
            (updateFromDisplayStep pageDimensions origin (ann_id ann) (Some nx) (Some ny) ann)
          = (nx, ny)"
    using assms(1) by (cases origin) (simp_all add: updateFromDisplayStep_def getDisplayCoordinates_def Let_def)
  have c5: "getDisplayCoordinates pageDimensions origin
            (updateFromDisplayStep pageDimensions origin (ann_id ann) (Some nx) None ann)
          = (nx, uy)"
    using assms(1) u by (cases origin) (auto simp add: updateFromDisplayStep_def getDisplayCoordinates_def Let_def)
  have c6: "getDisplayCoordinates pageDimensions origin
            (updateFromDisplayStep pageDimensions origin (ann_id ann) None (Some ny) ann)
          = (ux, ny)"
    using assms(1) u by (cases origin) (auto simp add: updateFromDisplayStep_def getDisplayCoordinates_def Let_def)
  have c7: "updateAnnotationFromDisplay [1 \<mapsto> \<lparr>width = 612, height = 792\<rparr>] TOP_RIGHT ''p''
            (Some 5) None
            [\<lparr>ann_id = ''p'', pageIndex = 1, ann_x = 100, ann_y = 700,
              displayX = 100, displayY = 92\<rparr>]
          = [\<lparr>ann_id = ''p'', pageIndex = 1, ann_x = 607, ann_y = 700,
              displayX = 607, displayY = 92\<rparr>]"
    by (simp add: updateAnnotationFromDisplay_def updateFromDisplayStep_def Let_def)
  show ?thesis using c1 c2 c3 c4 c5 c6 c7 by (simp add: nth Let_def)
qed

theorem round_trip_user_frame_witness:
  "[1 \<mapsto> \<lparr>width = 612, height = 792\<rparr>] (pageIndex
      \<lparr>ann_id = ''p'', pageIndex = 1, ann_x = 100, ann_y = 700, displayX = 100, displayY = 92\<rparr>)
     = Some \<lparr>width = 612, height = 792\<rparr>
   \<and> getDisplayCoordinates [1 \<mapsto> \<lparr>width = 612, height = 792\<rparr>] TOP_RIGHT
      \<lparr>ann_id = ''p'', pageIndex = 1, ann_x = 100, ann_y = 700, displayX = 100, displayY = 92\<rparr>
     = (512, 92)
   \<and> ann_x (updateAnnotationFromDisplay [1 \<mapsto> \<lparr>width = 612, height = 792\<rparr>] TOP_RIGHT ''p''
        (Some 512) (Some 92)
        [\<lparr>ann_id = ''p'', pageIndex = 1, ann_x = 100, ann_y = 700, displayX = 100, displayY = 92\<rparr>]
        ! 0) = 100
   \<and> ann_y (updateAnnotationFromDisplay [1 \<mapsto> \<lparr>width = 612, height = 792\<rparr>] TOP_RIGHT ''p''
        (Some 512) (Some 92)
        [\<lparr>ann_id = ''p'', pageIndex = 1, ann_x = 100, ann_y = 700, displayX = 100, displayY = 92\<rparr>]
        ! 0) = 700
   \<and> getDisplayCoordinates [1 \<mapsto> \<lparr>width = 612, height = 792\<rparr>] TOP_RIGHT
        (updateAnnotationFromDisplay [1 \<mapsto> \<lparr>width = 612, height = 792\<rparr>] TOP_RIGHT ''p''
          (Some 5) None
          [\<lparr>ann_id = ''p'', pageIndex = 1, ann_x = 100, ann_y = 700, displayX = 100, displayY = 92\<rparr>]
          ! 0)
      = (5, 92)"
proof -
  let ?d = "\<lparr>width = 612, height = 792\<rparr>"
  let ?a = "\<lparr>ann_id = ''p'', pageIndex = 1, ann_x = 100, ann_y = 700, displayX = 100, displayY = 92\<rparr>"
  have h1: "[1 \<mapsto> ?d] (pageIndex ?a) = Some ?d" by simp
  have h2: "(0::nat) < length [?a]" by simp
  have h3: "[?a] ! 0 = ?a" by simp
  have h4: "getDisplayCoordinates [1 \<mapsto> ?d] TOP_RIGHT ?a = (512, 92)"
    by (simp add: getDisplayCoordinates_def)
  note t = round_trip_user_frame [OF h1 h2 h3 h4, where nx = 5 and ny = 0]
  from t have a: "let edited = updateAnnotationFromDisplay [1 \<mapsto> ?d] TOP_RIGHT (ann_id ?a)
                         (Some 512) (Some 92) [?a] ! 0
          in ann_x edited = ann_x ?a \<and> ann_y edited = ann_y ?a"
    by blast
  from t have b: "getDisplayCoordinates [1 \<mapsto> ?d] TOP_RIGHT
            (updateAnnotationFromDisplay [1 \<mapsto> ?d] TOP_RIGHT (ann_id ?a) (Some 5) None [?a] ! 0)
          = (5, 92)"
    by blast
  show ?thesis
    using h1 h4 a b by (simp add: Let_def)
qed

text \<open>
  Claim C2. The conversion from canonical coordinates to the user's frame is the
  four-origin table in each place it is performed: the sidebar
  (\<open>getDisplayCoordinates\<close>), the label on the canvas (\<open>getLabelText\<close>) and the label of
  the exported document (\<open>drawAnnotation\<close>). On a 612 by 792 page the canonical point
  (100, 700) becomes (100, 92) top-left, (512, 92) top-right, (512, 700) bottom-right and
  (100, 700) bottom-left in all three.
\<close>

theorem four_origin_table:
  "getDisplayCoordinates (pageDimensions(pageIndex ann \<mapsto> dims)) origin ann
     = userFrameTable origin dims (ann_x ann, ann_y ann)
   \<and> getLabelText (Some dims) origin ann
     = labelText (fst (userFrameTable origin dims (ann_x ann, ann_y ann)))
                 (snd (userFrameTable origin dims (ann_x ann, ann_y ann)))
   \<and> exportDisplayCoordinates origin (width dims) (height dims) ann
     = userFrameTable origin dims (ann_x ann, ann_y ann)
   \<and> drawnTexts (drawAnnotation helveticaFont origin (width dims) (height dims) ann)
     = [labelText (fst (userFrameTable origin dims (ann_x ann, ann_y ann)))
                  (snd (userFrameTable origin dims (ann_x ann, ann_y ann)))]
   \<and> map (\<lambda>og. getDisplayCoordinates (pageDimensions(pageIndex ann \<mapsto> \<lparr>width = 612, height = 792\<rparr>)) og
              (ann\<lparr>ann_x := 100, ann_y := 700\<rparr>))
        [TOP_LEFT, TOP_RIGHT, BOTTOM_RIGHT, BOTTOM_LEFT]
     = [(100, 92), (512, 92), (512, 700), (100, 700)]
   \<and> map (\<lambda>og. getLabelText (Some \<lparr>width = 612, height = 792\<rparr>) og (ann\<lparr>ann_x := 100, ann_y := 700\<rparr>))
        [TOP_LEFT, TOP_RIGHT, BOTTOM_RIGHT, BOTTOM_LEFT]
     = [''x:100, y:92'', ''x:512, y:92'', ''x:512, y:700'', ''x:100, y:700'']
   \<and> map (\<lambda>og. drawnTexts (drawAnnotation helveticaFont og 612 792 (ann\<lparr>ann_x := 100, ann_y := 700\<rparr>)))
        [TOP_LEFT, TOP_RIGHT, BOTTOM_RIGHT, BOTTOM_LEFT]
     = [[''x:100, y:92''], [''x:512, y:92''], [''x:512, y:700''], [''x:100, y:700'']]"
proof -
  have a: "getDisplayCoordinates (pageDimensions(pageIndex ann \<mapsto> dims)) origin ann
     = userFrameTable origin dims (ann_x ann, ann_y ann)"
    by (cases origin) (simp_all add: getDisplayCoordinates_def)
  have b: "getLabelText (Some dims) origin ann
     = labelText (fst (userFrameTable origin dims (ann_x ann, ann_y ann)))
                 (snd (userFrameTable origin dims (ann_x ann, ann_y ann)))"
    by (cases origin) (simp_all add: getLabelText_def)
  have c: "exportDisplayCoordinates origin (width dims) (height dims) ann
     = userFrameTable origin dims (ann_x ann, ann_y ann)"
    by (cases origin) (simp_all add: exportDisplayCoordinates_def)
  have d: "drawnTexts (drawAnnotation helveticaFont origin (width dims) (height dims) ann)
     = [labelText (fst (userFrameTable origin dims (ann_x ann, ann_y ann)))
                  (snd (userFrameTable origin dims (ann_x ann, ann_y ann)))]"
    by (simp add: drawAnnotation_def drawnTexts_def List.map_filter_simps c Let_def
        split: prod.split)
  have e: "map (\<lambda>og. getDisplayCoordinates (pageDimensions(pageIndex ann \<mapsto> \<lparr>width = 612, height = 792\<rparr>)) og
              (ann\<lparr>ann_x := 100, ann_y := 700\<rparr>))
        [TOP_LEFT, TOP_RIGHT, BOTTOM_RIGHT, BOTTOM_LEFT]
     = [(100, 92), (512, 92), (512, 700), (100, 700)]"
    by (simp add: getDisplayCoordinates_def)
  have f: "map (\<lambda>og. getLabelText (Some \<lparr>width = 612, height = 792\<rparr>) og (ann\<lparr>ann_x := 100, ann_y := 700\<rparr>))
        [TOP_LEFT, TOP_RIGHT, BOTTOM_RIGHT, BOTTOM_LEFT]
     = [''x:100, y:92'', ''x:512, y:92'', ''x:512, y:700'', ''x:100, y:700'']"
    by (simp add: getLabelText_def labelText_def numberToString_def Math_round_def)
  have g: "map (\<lambda>og. drawnTexts (drawAnnotation helveticaFont og 612 792 (ann\<lparr>ann_x := 100, ann_y := 700\<rparr>)))
        [TOP_LEFT, TOP_RIGHT, BOTTOM_RIGHT, BOTTOM_LEFT]
     = [[''x:100, y:92''], [''x:512, y:92''], [''x:512, y:700''], [''x:100, y:700'']]"
    by (simp add: drawAnnotation_def drawnTexts_def List.map_filter_simps
        exportDisplayCoordinates_def Let_def labelText_def numberToString_def Math_round_def
        split: prod.split)
  show ?thesis using a b c d e f g by blast
qed

section \<open>Label placement\<close>

text \<open>
  Claim C3. The label box starts at \<open>(x + r, y + r)\<close>; each axis is flipped on its own
  test, made once on the unflipped position: when \<open>x + r + boxW > pageWidth\<close> the box
  goes to \<open>x - r - boxW\<close>, and when \<open>y + r + boxH > pageHeight\<close> it goes to
  \<open>y - r - boxH\<close>. On a 612 by 792 page with radius 3 and a 40 by 20 box, the marker at
  (600, 700) flips horizontally only: the box is anchored at (557, 703). The exporter
  draws the two rectangles of the label at this position, with the dot radius and the
  measured box size.
\<close>

theorem label_flip_rule:
  "labelBoxOrigin r px py boxW boxH pw ph
     = (if px + r + boxW > pw then px - r - boxW else px + r,
        if py + r + boxH > ph then py - r - boxH else py + r)
   \<and> labelBoxOrigin 3 600 700 40 20 612 792 = (557, 703)
   \<and> (let label = labelText (fst (exportDisplayCoordinates origin pw ph ann))
                             (snd (exportDisplayCoordinates origin pw ph ann));
          boxWidth = widthOfTextAtSize helveticaFont label TEXT_SIZE + PADDING * 2;
          boxHeight = heightAtSize helveticaFont TEXT_SIZE + PADDING * 2;
          box = labelBoxOrigin DOT_RADIUS (ann_x ann) (ann_y ann) boxWidth boxHeight pw ph
      in drawAnnotation helveticaFont origin pw ph ann ! 1
           = DrawRectangle (fst box) (snd box + CORNER_RADIUS) boxWidth
               (boxHeight - 2 * CORNER_RADIUS) RED_COLOR
       \<and> drawAnnotation helveticaFont origin pw ph ann ! 2
           = DrawRectangle (fst box + CORNER_RADIUS) (snd box) (boxWidth - 2 * CORNER_RADIUS)
               boxHeight RED_COLOR)"
proof -
  have a: "labelBoxOrigin r px py boxW boxH pw ph
     = (if px + r + boxW > pw then px - r - boxW else px + r,
        if py + r + boxH > ph then py - r - boxH else py + r)"
    by (simp add: labelBoxOrigin_def Let_def)
  have b: "labelBoxOrigin 3 600 700 40 20 612 792 = (557, 703)"
    by (simp add: labelBoxOrigin_def)
  have c: "let label = labelText (fst (exportDisplayCoordinates origin pw ph ann))
                             (snd (exportDisplayCoordinates origin pw ph ann));
          boxWidth = widthOfTextAtSize helveticaFont label TEXT_SIZE + PADDING * 2;
          boxHeight = heightAtSize helveticaFont TEXT_SIZE + PADDING * 2;
          box = labelBoxOrigin DOT_RADIUS (ann_x ann) (ann_y ann) boxWidth boxHeight pw ph
      in drawAnnotation helveticaFont origin pw ph ann ! 1
           = DrawRectangle (fst box) (snd box + CORNER_RADIUS) boxWidth
               (boxHeight - 2 * CORNER_RADIUS) RED_COLOR
       \<and> drawAnnotation helveticaFont origin pw ph ann ! 2
           = DrawRectangle (fst box + CORNER_RADIUS) (snd box) (boxWidth - 2 * CORNER_RADIUS)
               boxHeight RED_COLOR"
    by (simp add: drawAnnotation_def Let_def split: prod.split)
  show ?thesis using a b c by blast
qed

section \<open>Unknown page dimensions\<close>

text \<open>
  Claim C7. When the dimensions of an annotation's page are unknown, the conversions to
  the user's frame return the canonical values unchanged (sidebar and canvas label), and a
  coordinate-field edit leaves the annotation as it is. The functions have no failing
  branch: they return a value on every input.
\<close>

theorem unknown_dimensions_fallback:
  assumes "pageDimensions (pageIndex ann) = None"
    and "k < length prev" and "prev ! k = ann"
  shows "getDisplayCoordinates pageDimensions origin ann = (ann_x ann, ann_y ann)
       \<and> getLabelText (pageDimensions (pageIndex ann)) origin ann = labelText (ann_x ann) (ann_y ann)
       \<and> updateFromDisplayStep pageDimensions origin i newX newY ann = ann
       \<and> updateAnnotationFromDisplay pageDimensions origin i newX newY prev ! k = ann"
  using assms
  by (simp add: getDisplayCoordinates_def getLabelText_def updateFromDisplayStep_def
      updateAnnotationFromDisplay_def)

theorem unknown_dimensions_fallback_witness:
  "Map.empty (pageIndex
      \<lparr>ann_id = ''p'', pageIndex = 1, ann_x = 100, ann_y = 700, displayX = 100, displayY = 92\<rparr>)
     = (None :: PageDimensions option)
   \<and> getDisplayCoordinates Map.empty TOP_RIGHT
      \<lparr>ann_id = ''p'', pageIndex = 1, ann_x = 100, ann_y = 700, displayX = 100, displayY = 92\<rparr>
     = (100, 700)
   \<and> getLabelText None TOP_RIGHT
      \<lparr>ann_id = ''p'', pageIndex = 1, ann_x = 100, ann_y = 700, displayX = 100, displayY = 92\<rparr>
     = ''x:100, y:700''
   \<and> updateAnnotationFromDisplay Map.empty TOP_RIGHT ''p'' (Some 5) None
        [\<lparr>ann_id = ''p'', pageIndex = 1, ann_x = 100, ann_y = 700, displayX = 100, displayY = 92\<rparr>]
        ! 0
     = \<lparr>ann_id = ''p'', pageIndex = 1, ann_x = 100, ann_y = 700, displayX = 100, displayY = 92\<rparr>"
proof -
  let ?a = "\<lparr>ann_id = ''p'', pageIndex = 1, ann_x = 100, ann_y = 700, displayX = 100, displayY = 92\<rparr>"
  have h1: "(Map.empty :: int \<rightharpoonup> PageDimensions) (pageIndex ?a) = None" by simp
  have h2: "(0::nat) < length [?a]" by simp
  have h3: "[?a] ! 0 = ?a" by simp
  show ?thesis
    using unknown_dimensions_fallback [OF h1 h2 h3, of TOP_RIGHT "''p''" "Some 5" None]
    by (simp add: labelText_def numberToString_def Math_round_def)
qed

section \<open>Moving annotations\<close>

lemma dragMove_nth:
  "k < length prev \<Longrightarrow>
   dragMove pageDimensions pageNumber scale dragState clientX clientY prev ! k =
     (case handleWindowMouseMove scale (pageDimensions pageNumber) dragState clientX clientY of
        (i, nx, ny) \<Rightarrow> updatePositionStep pageDimensions i nx ny (prev ! k))"
  by (simp add: dragMove_def handleUpdateAnnotationPosition_def split: prod.split)
lemma updatePosition_nth:
  "k < length prev \<Longrightarrow>
   handleUpdateAnnotationPosition pageDimensions i nx ny prev ! k
     = updatePositionStep pageDimensions i nx ny (prev ! k)"
  by (simp add: handleUpdateAnnotationPosition_def)

lemma updateFromDisplay_nth:
  "k < length prev \<Longrightarrow>
   updateAnnotationFromDisplay pageDimensions origin i newX newY prev ! k
     = updateFromDisplayStep pageDimensions origin i newX newY (prev ! k)"
  by (simp add: updateAnnotationFromDisplay_def)

text \<open>
  Claim C4, as stated, fails for a drag while the dimensions of the shown page are
  unknown: the canvas clamps only when it has the dimensions, so the drag target
  (-10, 900) is stored as it is, not as (0, 792).
\<close>

theorem drag_unclamped_without_dimensions:
  "dragMove Map.empty 1 1
     \<lparr>drag_id = ''p'', startX = 200, startY = 300, initialPdfX = 100, initialPdfY = 700\<rparr>
     90 100
     [\<lparr>ann_id = ''p'', pageIndex = 1, ann_x = 100, ann_y = 700, displayX = 100, displayY = 92\<rparr>]
   = [\<lparr>ann_id = ''p'', pageIndex = 1, ann_x = - 10, ann_y = 900,
       displayX = - 10, displayY = 92\<rparr>]
   \<and> dragMove Map.empty 1 1
     \<lparr>drag_id = ''p'', startX = 200, startY = 300, initialPdfX = 100, initialPdfY = 700\<rparr>
     90 100
     [\<lparr>ann_id = ''p'', pageIndex = 1, ann_x = 100, ann_y = 700, displayX = 100, displayY = 92\<rparr>]
   \<noteq> [\<lparr>ann_id = ''p'', pageIndex = 1, ann_x = 0, ann_y = 792, displayX = 0, displayY = 0\<rparr>]"
  by (simp add: dragMove_def handleWindowMouseMove_def handleUpdateAnnotationPosition_def
      updatePositionStep_def Let_def)

text \<open>
  Claim C4, amended. A mouse move of a drag on an annotation of the shown page, when the
  dimensions of that page are known, stores the target position with each component
  clamped on its own, \<open>x\<close> to \<open>[0, width]\<close> and \<open>y\<close> to \<open>[0, height]\<close>, and recomputes the
  cached view coordinates from the stored position. On a 612 by 792 page the drag target
  (-10, 900) is stored as (0, 792). The canvas only starts a drag on an annotation of
  the page it shows, and the zoom factor is positive.
\<close>

theorem drag_clamps_to_page:
  assumes "0 < scale"
    and "pageDimensions pageNumber = Some dims"
    and "k < length prev"
    and "ann_id (prev ! k) = drag_id dragState"
    and "pageIndex (prev ! k) = pageNumber"
  shows "(let moved = dragMove pageDimensions pageNumber scale dragState clientX clientY prev ! k;
              targetX = initialPdfX dragState + (clientX - startX dragState) / scale;
              targetY = initialPdfY dragState - (clientY - startY dragState) / scale
          in ann_x moved = max 0 (min targetX (width dims))
           \<and> ann_y moved = max 0 (min targetY (height dims))
           \<and> displayX moved = ann_x moved
           \<and> displayY moved = height dims - ann_y moved
           \<and> (0 \<le> width dims \<longrightarrow> 0 \<le> ann_x moved \<and> ann_x moved \<le> width dims)
           \<and> (0 \<le> height dims \<longrightarrow> 0 \<le> ann_y moved \<and> ann_y moved \<le> height dims))
       \<and> dragMove [1 \<mapsto> \<lparr>width = 612, height = 792\<rparr>] 1 1
            \<lparr>drag_id = ''p'', startX = 200, startY = 300, initialPdfX = 100, initialPdfY = 700\<rparr>
            90 100
            [\<lparr>ann_id = ''p'', pageIndex = 1, ann_x = 100, ann_y = 700,
              displayX = 100, displayY = 92\<rparr>]
          = [\<lparr>ann_id = ''p'', pageIndex = 1, ann_x = 0, ann_y = 792,
              displayX = 0, displayY = 0\<rparr>]"
proof -
  have a: "let moved = dragMove pageDimensions pageNumber scale dragState clientX clientY prev ! k;
              targetX = initialPdfX dragState + (clientX - startX dragState) / scale;
              targetY = initialPdfY dragState - (clientY - startY dragState) / scale
          in ann_x moved = max 0 (min targetX (width dims))
           \<and> ann_y moved = max 0 (min targetY (height dims))
           \<and> displayX moved = ann_x moved
           \<and> displayY moved = height dims - ann_y moved
           \<and> (0 \<le> width dims \<longrightarrow> 0 \<le> ann_x moved \<and> ann_x moved \<le> width dims)
           \<and> (0 \<le> height dims \<longrightarrow> 0 \<le> ann_y moved \<and> ann_y moved \<le> height dims)"
    using assms
    by (simp add: dragMove_nth handleWindowMouseMove_def updatePositionStep_def Let_def)
  have b: "dragMove [1 \<mapsto> \<lparr>width = 612, height = 792\<rparr>] 1 1
            \<lparr>drag_id = ''p'', startX = 200, startY = 300, initialPdfX = 100, initialPdfY = 700\<rparr>
            90 100
            [\<lparr>ann_id = ''p'', pageIndex = 1, ann_x = 100, ann_y = 700,
              displayX = 100, displayY = 92\<rparr>]
          = [\<lparr>ann_id = ''p'', pageIndex = 1, ann_x = 0, ann_y = 792,
              displayX = 0, displayY = 0\<rparr>]"
    by (simp add: dragMove_def handleWindowMouseMove_def handleUpdateAnnotationPosition_def
        updatePositionStep_def Let_def)
  show ?thesis using a b by blast
qed

theorem drag_clamps_to_page_witness:
  "(0::real) < 1
   \<and> [1 \<mapsto> \<lparr>width = 612, height = 792\<rparr>] (1::int) = Some \<lparr>width = 612, height = 792\<rparr>
   \<and> ann_x (dragMove [1 \<mapsto> \<lparr>width = 612, height = 792\<rparr>] 1 1
        \<lparr>drag_id = ''p'', startX = 200, startY = 300, initialPdfX = 100, initialPdfY = 700\<rparr>
        90 100
        [\<lparr>ann_id = ''p'', pageIndex = 1, ann_x = 100, ann_y = 700,
          displayX = 100, displayY = 92\<rparr>] ! 0) = 0
   \<and> ann_y (dragMove [1 \<mapsto> \<lparr>width = 612, height = 792\<rparr>] 1 1
        \<lparr>drag_id = ''p'', startX = 200, startY = 300, initialPdfX = 100, initialPdfY = 700\<rparr>
        90 100
        [\<lparr>ann_id = ''p'', pageIndex = 1, ann_x = 100, ann_y = 700,
          displayX = 100, displayY = 92\<rparr>] ! 0) = 792"
proof -
  let ?d = "\<lparr>width = 612, height = 792\<rparr>"
  let ?a = "\<lparr>ann_id = ''p'', pageIndex = 1, ann_x = 100, ann_y = 700, displayX = 100, displayY = 92\<rparr>"
  let ?s = "\<lparr>drag_id = ''p'', startX = 200, startY = 300, initialPdfX = 100, initialPdfY = 700\<rparr>"
  have h1: "(0::real) < 1" by simp
  have h2: "[1 \<mapsto> ?d] (1::int) = Some ?d" by simp
  have h3: "(0::nat) < length [?a]" by simp
  have h4: "ann_id ([?a] ! 0) = drag_id ?s" by simp
  have h5: "pageIndex ([?a] ! 0) = 1" by simp
  show ?thesis
    using drag_clamps_to_page [where scale = 1 and pageDimensions = "[1 \<mapsto> ?d]"
        and pageNumber = 1 and dims = ?d and k = 0 and prev = "[?a]" and dragState = ?s
        and clientX = 90 and clientY = 100, OF h1 h2 h3 h4 h5]
    by (simp add: Let_def)
qed

text \<open>
  Claim C10. When the dimensions of the shown page are unknown, a mouse move of a drag
  stores the target position without clamping, sets \<open>displayX\<close> to the new \<open>x\<close> and keeps
  the previous \<open>displayY\<close>: the stored point can lie outside the page (here at
  \<open>x = -10\<close>) and the cached \<open>displayY\<close> stays at 92 although \<open>y\<close> moved from 700 to 900.
\<close>

theorem drag_without_dimensions:
  assumes "0 < scale"
    and "pageDimensions pageNumber = None"
    and "k < length prev"
    and "ann_id (prev ! k) = drag_id dragState"
    and "pageIndex (prev ! k) = pageNumber"
  shows "(let moved = dragMove pageDimensions pageNumber scale dragState clientX clientY prev ! k;
              targetX = initialPdfX dragState + (clientX - startX dragState) / scale;
              targetY = initialPdfY dragState - (clientY - startY dragState) / scale
          in ann_x moved = targetX
           \<and> ann_y moved = targetY
           \<and> displayX moved = targetX
           \<and> displayY moved = displayY (prev ! k))
       \<and> dragMove Map.empty 1 1
            \<lparr>drag_id = ''p'', startX = 200, startY = 300, initialPdfX = 100, initialPdfY = 700\<rparr>
            90 100
            [\<lparr>ann_id = ''p'', pageIndex = 1, ann_x = 100, ann_y = 700,
              displayX = 100, displayY = 92\<rparr>]
          = [\<lparr>ann_id = ''p'', pageIndex = 1, ann_x = - 10, ann_y = 900,
              displayX = - 10, displayY = 92\<rparr>]"
proof -
  have a: "let moved = dragMove pageDimensions pageNumber scale dragState clientX clientY prev ! k;
              targetX = initialPdfX dragState + (clientX - startX dragState) / scale;
              targetY = initialPdfY dragState - (clientY - startY dragState) / scale
          in ann_x moved = targetX
           \<and> ann_y moved = targetY
           \<and> displayX moved = targetX
           \<and> displayY moved = displayY (prev ! k)"
    using assms
    by (simp add: dragMove_nth handleWindowMouseMove_def updatePositionStep_def Let_def)
  have b: "dragMove Map.empty 1 1
            \<lparr>drag_id = ''p'', startX = 200, startY = 300, initialPdfX = 100, initialPdfY = 700\<rparr>
            90 100
            [\<lparr>ann_id = ''p'', pageIndex = 1, ann_x = 100, ann_y = 700,
              displayX = 100, displayY = 92\<rparr>]
          = [\<lparr>ann_id = ''p'', pageIndex = 1, ann_x = - 10, ann_y = 900,
              displayX = - 10, displayY = 92\<rparr>]"
    by (simp add: dragMove_def handleWindowMouseMove_def handleUpdateAnnotationPosition_def
        updatePositionStep_def Let_def)
  show ?thesis using a b by blast
qed

theorem drag_without_dimensions_witness:
  "(0::real) < 1
   \<and> (Map.empty :: int \<rightharpoonup> PageDimensions) 1 = None
   \<and> ann_y (dragMove Map.empty 1 1
        \<lparr>drag_id = ''p'', startX = 200, startY = 300, initialPdfX = 100, initialPdfY = 700\<rparr>
        90 100
        [\<lparr>ann_id = ''p'', pageIndex = 1, ann_x = 100, ann_y = 700,
          displayX = 100, displayY = 92\<rparr>] ! 0) = 900
   \<and> displayY (dragMove Map.empty 1 1
        \<lparr>drag_id = ''p'', startX = 200, startY = 300, initialPdfX = 100, initialPdfY = 700\<rparr>
        90 100
        [\<lparr>ann_id = ''p'', pageIndex = 1, ann_x = 100, ann_y = 700,
          displayX = 100, displayY = 92\<rparr>] ! 0) = 92"
proof -
  let ?a = "\<lparr>ann_id = ''p'', pageIndex = 1, ann_x = 100, ann_y = 700, displayX = 100, displayY = 92\<rparr>"
  let ?s = "\<lparr>drag_id = ''p'', startX = 200, startY = 300, initialPdfX = 100, initialPdfY = 700\<rparr>"
  have h1: "(0::real) < 1" by simp
  have h2: "(Map.empty :: int \<rightharpoonup> PageDimensions) 1 = None" by simp
  have h3: "(0::nat) < length [?a]" by simp
  have h4: "ann_id ([?a] ! 0) = drag_id ?s" by simp
  have h5: "pageIndex ([?a] ! 0) = 1" by simp
  show ?thesis
    using drag_without_dimensions [where scale = 1
        and pageDimensions = "Map.empty :: int \<rightharpoonup> PageDimensions"
        and pageNumber = 1 and k = 0 and prev = "[?a]" and dragState = ?s
        and clientX = 90 and clientY = 100, OF h1 h2 h3 h4 h5]
    by (simp add: Let_def)
qed

section \<open>The cached view coordinates\<close>

text \<open>
  Claim C5, as stated, fails in two ways. A position update of an annotation whose page
  has no known dimensions changes \<open>y\<close> and keeps the old \<open>displayY\<close>: the first
  annotation below is in sync for the page height 792 before the update and out of sync
  after it. And a click derives \<open>y\<close> from the height of the rendered page, not from the
  page's own height: on a page 841.89 points high that is rendered 841 pixels high at
  zoom factor 1, the annotation created by a click 100 pixels from the top has
  \<open>displayY = 100\<close> and \<open>y = 741\<close>, which is out of sync for the page height.
\<close>

theorem display_cache_diverges:
  "displayInSync 792
     \<lparr>ann_id = ''p'', pageIndex = 1, ann_x = 100, ann_y = 700, displayX = 100, displayY = 92\<rparr>
   \<and> handleUpdateAnnotationPosition Map.empty ''p'' 100 600
       [\<lparr>ann_id = ''p'', pageIndex = 1, ann_x = 100, ann_y = 700, displayX = 100, displayY = 92\<rparr>]
     = [\<lparr>ann_id = ''p'', pageIndex = 1, ann_x = 100, ann_y = 600, displayX = 100, displayY = 92\<rparr>]
   \<and> \<not> displayInSync 792
       (handleUpdateAnnotationPosition Map.empty ''p'' 100 600
          [\<lparr>ann_id = ''p'', pageIndex = 1, ann_x = 100, ann_y = 700,
            displayX = 100, displayY = 92\<rparr>] ! 0)
   \<and> handleClick False 1000 0 (Some \<lparr>rect_left = 0, rect_top = 0, rect_height = 841\<rparr>)
        1 1 ''q'' 100 100
     = Some \<lparr>ann_id = ''q'', pageIndex = 1, ann_x = 100, ann_y = 741,
             displayX = 100, displayY = 100\<rparr>
   \<and> \<not> displayInSync (84189 / 100)
       \<lparr>ann_id = ''q'', pageIndex = 1, ann_x = 100, ann_y = 741, displayX = 100, displayY = 100\<rparr>"
  by (simp add: displayInSync_def handleUpdateAnnotationPosition_def updatePositionStep_def
      handleClick_def Let_def)

text \<open>
  Claim C5, amended. For an annotation whose page has known dimensions, a position update
  (drag) and a coordinate-field edit leave \<open>displayX = x\<close> and
  \<open>displayY = height - y\<close>. When the dimensions are unknown, a coordinate-field edit
  changes nothing, and a position update sets \<open>displayX\<close> to the new \<open>x\<close> and keeps the
  previous \<open>displayY\<close>. An annotation created by a click on a page of known dimensions
  has \<open>displayX = x\<close> and \<open>displayY = height - y\<close> when the page is rendered at its
  height times the zoom factor.
\<close>

theorem display_cache_in_sync:
  assumes "k < length prev" and "ann_id (prev ! k) = i"
  shows "(pageDimensions (pageIndex (prev ! k)) = Some dims \<longrightarrow>
            displayInSync (height dims)
              (handleUpdateAnnotationPosition pageDimensions i nx ny prev ! k)
          \<and> displayInSync (height dims)
              (updateAnnotationFromDisplay pageDimensions origin i newX newY prev ! k))
       \<and> (pageDimensions (pageIndex (prev ! k)) = None \<longrightarrow>
            handleUpdateAnnotationPosition pageDimensions i nx ny prev ! k
              = (prev ! k)\<lparr>ann_x := nx, ann_y := ny, displayX := nx\<rparr>
          \<and> updateAnnotationFromDisplay pageDimensions origin i newX newY prev ! k = prev ! k)
       \<and> (0 < scale \<and> pageDimensions pageNumber = Some shown \<and>
          rect_height rect = scale * height shown \<and>
          handleClick isPanning now lastDragEndTime (Some rect) pageNumber scale freshId
              clientX clientY = Some created \<longrightarrow>
            pageDimensions (pageIndex created) = Some shown
          \<and> displayInSync (height shown) created)"
proof -
  have a: "pageDimensions (pageIndex (prev ! k)) = Some dims \<longrightarrow>
            displayInSync (height dims)
              (handleUpdateAnnotationPosition pageDimensions i nx ny prev ! k)
          \<and> displayInSync (height dims)
              (updateAnnotationFromDisplay pageDimensions origin i newX newY prev ! k)"
    using assms
    by (simp add: updatePosition_nth updateFromDisplay_nth displayInSync_def
        updatePositionStep_def updateFromDisplayStep_def Let_def)
  have b: "pageDimensions (pageIndex (prev ! k)) = None \<longrightarrow>
            handleUpdateAnnotationPosition pageDimensions i nx ny prev ! k
              = (prev ! k)\<lparr>ann_x := nx, ann_y := ny, displayX := nx\<rparr>
          \<and> updateAnnotationFromDisplay pageDimensions origin i newX newY prev ! k = prev ! k"
    using assms
    by (simp add: updatePosition_nth updateFromDisplay_nth
        updatePositionStep_def updateFromDisplayStep_def Let_def)
  have c: "0 < scale \<and> pageDimensions pageNumber = Some shown \<and>
          rect_height rect = scale * height shown \<and>
          handleClick isPanning now lastDragEndTime (Some rect) pageNumber scale freshId
              clientX clientY = Some created \<longrightarrow>
            pageDimensions (pageIndex created) = Some shown
          \<and> displayInSync (height shown) created"
    by (auto simp add: handleClick_def displayInSync_def Let_def split: if_splits)
  show ?thesis using a b c by blast
qed

theorem display_cache_in_sync_witness:
  "displayInSync 792
     (handleUpdateAnnotationPosition [1 \<mapsto> \<lparr>width = 612, height = 792\<rparr>] ''p'' 100 600
        [\<lparr>ann_id = ''p'', pageIndex = 1, ann_x = 100, ann_y = 700,
          displayX = 100, displayY = 92\<rparr>] ! 0)
   \<and> displayInSync 792
     (updateAnnotationFromDisplay [1 \<mapsto> \<lparr>width = 612, height = 792\<rparr>] TOP_LEFT ''p''
        None (Some 10)
        [\<lparr>ann_id = ''p'', pageIndex = 1, ann_x = 100, ann_y = 700,
          displayX = 100, displayY = 92\<rparr>] ! 0)
   \<and> updateAnnotationFromDisplay Map.empty TOP_LEFT ''p'' None (Some 10)
        [\<lparr>ann_id = ''p'', pageIndex = 1, ann_x = 100, ann_y = 700,
          displayX = 100, displayY = 92\<rparr>] ! 0
      = \<lparr>ann_id = ''p'', pageIndex = 1, ann_x = 100, ann_y = 700, displayX = 100, displayY = 92\<rparr>
   \<and> handleClick False 1000 0 (Some \<lparr>rect_left = 10, rect_top = 20, rect_height = 1584\<rparr>)
        1 2 ''q'' 210 220
      = Some \<lparr>ann_id = ''q'', pageIndex = 1, ann_x = 100, ann_y = 692,
              displayX = 100, displayY = 100\<rparr>
   \<and> rect_height \<lparr>rect_left = 10, rect_top = 20, rect_height = 1584\<rparr>
      = 2 * height \<lparr>width = 612, height = 792\<rparr>
   \<and> displayInSync 792
       \<lparr>ann_id = ''q'', pageIndex = 1, ann_x = 100, ann_y = 692, displayX = 100, displayY = 100\<rparr>"
proof -
  let ?d = "\<lparr>width = 612, height = 792\<rparr>"
  let ?a = "\<lparr>ann_id = ''p'', pageIndex = 1, ann_x = 100, ann_y = 700, displayX = 100, displayY = 92\<rparr>"
  let ?r = "\<lparr>rect_left = 10, rect_top = 20, rect_height = 1584\<rparr>"
  let ?q = "\<lparr>ann_id = ''q'', pageIndex = 1, ann_x = 100, ann_y = 692, displayX = 100, displayY = 100\<rparr>"
  have h1: "(0::nat) < length [?a]" by simp
  have h2: "ann_id ([?a] ! 0) = ''p''" by simp
  have h3: "[1 \<mapsto> ?d] (pageIndex ([?a] ! 0)) = Some ?d" by simp
  have h4: "(Map.empty :: int \<rightharpoonup> PageDimensions) (pageIndex ([?a] ! 0)) = None" by simp
  have h5: "handleClick False 1000 0 (Some ?r) 1 2 ''q'' 210 220 = Some ?q"
    by (simp add: handleClick_def Let_def)
  have h6: "(0::real) < 2 \<and> [1 \<mapsto> ?d] (1::int) = Some ?d \<and> rect_height ?r = 2 * height ?d"
    by simp
  show ?thesis
    using h3 h4 h5 h6
      display_cache_in_sync [where k = 0 and prev = "[?a]" and i = "''p''"
        and pageDimensions = "[1 \<mapsto> ?d]" and dims = ?d and nx = 100 and ny = 600
        and origin = TOP_LEFT and newX = None and newY = "Some 10"
        and isPanning = False and now = 1000 and lastDragEndTime = 0 and rect = ?r
        and pageNumber = 1 and scale = 2 and freshId = "''q''" and clientX = 210
        and clientY = 220 and created = ?q and shown = ?d, OF h1 h2]
      display_cache_in_sync [where k = 0 and prev = "[?a]" and i = "''p''"
        and pageDimensions = "Map.empty :: int \<rightharpoonup> PageDimensions" and nx = 100 and ny = 600
        and origin = TOP_LEFT and newX = None and newY = "Some 10"
        and isPanning = False and now = 1000 and lastDragEndTime = 0 and rect = ?r
        and pageNumber = 1 and scale = 2 and freshId = "''q''" and clientX = 210
        and clientY = 220 and created = ?q and shown = ?d, OF h1 h2]
    by simp
qed

section \<open>Export failures\<close>

text \<open>
  Claim C8. When loading the source bytes, embedding the font, the loop over the pages or
  saving the document fails, the export yields the single error \<open>SaveFailed\<close>. Every
  export yields either that error or the complete output: the bytes saved from the
  document with all annotations drawn, under the name \<open>annotated_\<close> followed by the file
  name.
\<close>

theorem export_fails_as_one_error:
  "(load lib originalPdfBytes = Inl e \<longrightarrow>
      saveAnnotatedPdf md lib originalPdfBytes annotations fileName origin = Inl SaveFailed)
   \<and> (load lib originalPdfBytes = Inr pages \<and> embedFont lib pages = Inl e \<longrightarrow>
      saveAnnotatedPdf md lib originalPdfBytes annotations fileName origin = Inl SaveFailed)
   \<and> (load lib originalPdfBytes = Inr pages \<and> embedFont lib pages = Inr helveticaFont \<and>
      drawAnnotations md helveticaFont origin annotations pages = None \<longrightarrow>
      saveAnnotatedPdf md lib originalPdfBytes annotations fileName origin = Inl SaveFailed)
   \<and> (load lib originalPdfBytes = Inr pages \<and> embedFont lib pages = Inr helveticaFont \<and>
      drawAnnotations md helveticaFont origin annotations pages = Some drawn \<and>
      save lib drawn = Inl e \<longrightarrow>
      saveAnnotatedPdf md lib originalPdfBytes annotations fileName origin = Inl SaveFailed)
   \<and> (saveAnnotatedPdf md lib originalPdfBytes annotations fileName origin = Inl SaveFailed
      \<or> (\<exists>ps f dr modifiedPdfBytes.
            load lib originalPdfBytes = Inr ps \<and> embedFont lib ps = Inr f \<and>
            drawAnnotations md f origin annotations ps = Some dr \<and>
            save lib dr = Inr modifiedPdfBytes \<and>
            saveAnnotatedPdf md lib originalPdfBytes annotations fileName origin
              = Inr (''annotated_'' @ fileName, modifiedPdfBytes)))"
  by (auto simp add: saveAnnotatedPdf_def split: sum.splits option.splits)

theorem export_fails_as_one_error_witness:
  "saveAnnotatedPdf leadingDigit (stubLib False True True) [37, 80] [] ''a.pdf'' BOTTOM_LEFT
     = Inl SaveFailed
   \<and> saveAnnotatedPdf leadingDigit (stubLib True False True) [37, 80] [] ''a.pdf'' BOTTOM_LEFT
     = Inl SaveFailed
   \<and> saveAnnotatedPdf leadingDigit (stubLib True True True) [37, 80]
       [\<lparr>ann_id = ''q'', pageIndex = 10 ^ 21, ann_x = 5, ann_y = 5, displayX = 5, displayY = 787\<rparr>]
       ''a.pdf'' BOTTOM_LEFT
     = Inl SaveFailed
   \<and> saveAnnotatedPdf leadingDigit (stubLib True True False) [37, 80] [] ''a.pdf'' BOTTOM_LEFT
     = Inl SaveFailed
   \<and> saveAnnotatedPdf leadingDigit (stubLib True True True) [37, 80] [] ''a.pdf'' BOTTOM_LEFT
       = Inr (''annotated_a.pdf'', [0])"
proof -
  let ?pg = "\<lparr>pageWidth = 612, pageHeight = 792, operations = []\<rparr>"
  let ?q = "\<lparr>ann_id = ''q'', pageIndex = 10 ^ 21, ann_x = 5, ann_y = 5, displayX = 5, displayY = 787\<rparr>"
  have h1: "load (stubLib False True True) [37, 80] = Inl ''parse''"
    by (simp add: stubLib_def)
  have h2: "load (stubLib True False True) [37, 80] = Inr [?pg]
      \<and> embedFont (stubLib True False True) [?pg] = Inl ''font''"
    by (simp add: stubLib_def)
  have h3: "load (stubLib True True True) [37, 80] = Inr [?pg]
      \<and> embedFont (stubLib True True True) [?pg] = Inr stubFont
      \<and> drawAnnotations leadingDigit stubFont BOTTOM_LEFT [?q] [?pg] = None"
    by (simp add: stubLib_def drawAnnotations_def annotationsByPage_def objectKeys_def
        isArrayIndex_def processPage_def parseIntOfKey_def leadingDigit_def Let_def)
  have h4: "load (stubLib True True False) [37, 80] = Inr [?pg]
      \<and> embedFont (stubLib True True False) [?pg] = Inr stubFont
      \<and> drawAnnotations leadingDigit stubFont BOTTOM_LEFT [] [?pg] = Some [?pg]
      \<and> save (stubLib True True False) [?pg] = Inl ''save''"
    by (simp add: stubLib_def drawAnnotations_def annotationsByPage_def objectKeys_def)
  have h5: "saveAnnotatedPdf leadingDigit (stubLib True True True) [37, 80] [] ''a.pdf'' BOTTOM_LEFT
       = Inr (''annotated_a.pdf'', [0])"
    by (simp add: saveAnnotatedPdf_def stubLib_def drawAnnotations_def annotationsByPage_def
        objectKeys_def)
  show ?thesis
    using h1 h2 h3 h4 h5
      export_fails_as_one_error [where lib = "stubLib False True True" and originalPdfBytes = "[37, 80]"
        and e = "''parse''" and md = leadingDigit and annotations = "[]"
        and fileName = "''a.pdf''" and origin = BOTTOM_LEFT and pages = "[?pg]"
        and helveticaFont = stubFont and drawn = "[?pg]"]
      export_fails_as_one_error [where lib = "stubLib True False True" and originalPdfBytes = "[37, 80]"
        and e = "''font''" and md = leadingDigit and annotations = "[]"
        and fileName = "''a.pdf''" and origin = BOTTOM_LEFT and pages = "[?pg]"
        and helveticaFont = stubFont and drawn = "[?pg]"]
      export_fails_as_one_error [where lib = "stubLib True True True" and originalPdfBytes = "[37, 80]"
        and e = "''x''" and md = leadingDigit and annotations = "[?q]"
        and fileName = "''a.pdf''" and origin = BOTTOM_LEFT and pages = "[?pg]"
        and helveticaFont = stubFont and drawn = "[?pg]"]
      export_fails_as_one_error [where lib = "stubLib True True False" and originalPdfBytes = "[37, 80]"
        and e = "''save''" and md = leadingDigit and annotations = "[]"
        and fileName = "''a.pdf''" and origin = BOTTOM_LEFT and pages = "[?pg]"
        and helveticaFont = stubFont and drawn = "[?pg]"]
    by simp
qed

section \<open>The ordered view\<close>






subsection \<open>The insertion sort keeps the promise of the library sort\<close>











subsection \<open>The rule and the ordered view\<close>





lemma cycle_has_no_order:
  assumes "sorted_wrt R ys" and "a \<in> set ys" and "b \<in> set ys" and "c \<in> set ys"
    and "a \<noteq> b" and "b \<noteq> c" and "c \<noteq> a"
    and "\<not> R b a" and "\<not> R c b" and "\<not> R a c"
  shows False
proof -
  obtain i j k where i: "i < length ys" "ys ! i = a" and j: "j < length ys" "ys ! j = b"
    and k: "k < length ys" "ys ! k = c"
    using assms(2-4) by (metis in_set_conv_nth)
  have nth: "R (ys ! p) (ys ! q)" if "p < q" "q < length ys" for p q
    using sorted_wrt_nth_less [OF assms(1) that] .
  have "i \<noteq> j" "j \<noteq> k" "k \<noteq> i"
    using i j k assms(5-7) by auto
  moreover have "\<not> j < i" using nth [of j i] i j assms(8) by auto
  moreover have "\<not> k < j" using nth [of k j] j k assms(9) by auto
  moreover have "\<not> i < k" using nth [of i k] i k assms(10) by auto
  ultimately show False by linarith
qed

lemma cycle_points_no_order:
  assumes "mset (sortFn compareAnnotations
       [\<lparr>ann_id = ''a'', pageIndex = 1, ann_x = 0, ann_y = 0, displayX = 0, displayY = 792\<rparr>,
        \<lparr>ann_id = ''b'', pageIndex = 1, ann_x = 5, ann_y = 3 / 2, displayX = 5, displayY = 1581 / 2\<rparr>,
        \<lparr>ann_id = ''c'', pageIndex = 1, ann_x = 10, ann_y = 3, displayX = 10, displayY = 789\<rparr>])
     = mset
       [\<lparr>ann_id = ''a'', pageIndex = 1, ann_x = 0, ann_y = 0, displayX = 0, displayY = 792\<rparr>,
        \<lparr>ann_id = ''b'', pageIndex = 1, ann_x = 5, ann_y = 3 / 2, displayX = 5, displayY = 1581 / 2\<rparr>,
        \<lparr>ann_id = ''c'', pageIndex = 1, ann_x = 10, ann_y = 3, displayX = 10, displayY = 789\<rparr>]"
  shows "\<not> sorted_wrt readingOrder (sortedAnnotations sortFn
       [\<lparr>ann_id = ''a'', pageIndex = 1, ann_x = 0, ann_y = 0, displayX = 0, displayY = 792\<rparr>,
        \<lparr>ann_id = ''b'', pageIndex = 1, ann_x = 5, ann_y = 3 / 2, displayX = 5, displayY = 1581 / 2\<rparr>,
        \<lparr>ann_id = ''c'', pageIndex = 1, ann_x = 10, ann_y = 3, displayX = 10, displayY = 789\<rparr>])"
proof
  let ?a = "\<lparr>ann_id = ''a'', pageIndex = 1, ann_x = 0, ann_y = 0, displayX = 0, displayY = 792\<rparr>"
  let ?b = "\<lparr>ann_id = ''b'', pageIndex = 1, ann_x = 5, ann_y = 3 / 2, displayX = 5, displayY = 1581 / 2\<rparr>"
  let ?c = "\<lparr>ann_id = ''c'', pageIndex = 1, ann_x = 10, ann_y = 3, displayX = 10, displayY = 789\<rparr>"
  let ?ys = "sortedAnnotations sortFn [?a, ?b, ?c]"
  assume s: "sorted_wrt readingOrder ?ys"
  have st: "set ?ys = {?a, ?b, ?c}"
    using mset_eq_setD [OF assms] by (simp add: sortedAnnotations_def)
  have "\<not> readingOrder ?b ?a" and "\<not> readingOrder ?c ?b" and "\<not> readingOrder ?a ?c"
    by (simp_all add: readingOrder_def)
  then show False
    using cycle_has_no_order [OF s, of ?a ?b ?c] st by simp
qed




section \<open>The exported document\<close>

lemma pushAnnotation_keys:
  "fst ` set (pushAnnotation g a) = insert (pageIndex a) (fst ` set g)"
  by (induction g a rule: pushAnnotation.induct) auto

lemma pushAnnotation_distinct:
  "distinct (map fst g) \<Longrightarrow> distinct (map fst (pushAnnotation g a))"
proof (induction g a rule: pushAnnotation.induct)
  case (1 ann)
  then show ?case by simp
next
  case (2 k g rest ann)
  then show ?case
    using pushAnnotation_keys [of rest ann] by (auto simp add: image_iff)
qed

lemma pushAnnotation_groupOf:
  "groupOf (pushAnnotation g a) k =
     (if k = pageIndex a then groupOf g k @ [a] else groupOf g k)"
  by (induction g a rule: pushAnnotation.induct) (auto simp add: groupOf_def)

lemma foldl_pushAnnotation:
  "distinct (map fst g) \<Longrightarrow>
   distinct (map fst (foldl pushAnnotation g anns)) \<and>
   fst ` set (foldl pushAnnotation g anns) = fst ` set g \<union> pageIndex ` set anns \<and>
   groupOf (foldl pushAnnotation g anns) k = groupOf g k @ filter (\<lambda>a. pageIndex a = k) anns"
proof (induction anns arbitrary: g)
  case Nil
  then show ?case by simp
next
  case (Cons a anns)
  from Cons.IH [OF pushAnnotation_distinct [OF Cons.prems, of a]]
  show ?case by (simp add: pushAnnotation_groupOf pushAnnotation_keys)
qed

lemma annotationsByPage_distinct: "distinct (map fst (annotationsByPage anns))"
  using foldl_pushAnnotation [of "[]" anns] by (simp add: annotationsByPage_def)

lemma annotationsByPage_keys: "fst ` set (annotationsByPage anns) = pageIndex ` set anns"
  using foldl_pushAnnotation [of "[]" anns] by (simp add: annotationsByPage_def)

lemma annotationsByPage_groupOf:
  "groupOf (annotationsByPage anns) k = filter (\<lambda>a. pageIndex a = k) anns"
  using foldl_pushAnnotation [of "[]" anns k] by (simp add: annotationsByPage_def groupOf_def)

lemma mset_objectKeys: "mset (objectKeys es) = mset (map fst es)"
  by (simp add: objectKeys_def Let_def)

lemma set_objectKeys: "set (objectKeys es) = fst ` set es"
  using mset_objectKeys [of es] by (metis set_mset_mset set_map)

lemma distinct_objectKeys: "distinct (map fst es) \<Longrightarrow> distinct (objectKeys es)"
  using mset_objectKeys [of es] by (metis mset_eq_imp_distinct_iff)

lemma processPage_decimal:
  assumes "\<bar>k\<bar> < 10 ^ 21" and "map_of groups k = Some g"
  shows "\<exists>ps. processPage md f og groups pages k = Some ps \<and> length ps = length pages \<and>
     (\<forall>i < length pages.
        ps ! i =
          (if k = int i + 1
           then (pages ! i)\<lparr>operations := operations (pages ! i) @
                  concat (map (drawAnnotation f og (pageWidth (pages ! i)) (pageHeight (pages ! i))) g)\<rparr>
           else pages ! i))"
  using assms
  by (auto simp add: processPage_def parseIntOfKey_def Let_def nth_list_update)

lemma processKeys_decimal:
  assumes "distinct ks" and "\<forall>k \<in> set ks. \<bar>k\<bar> < 10 ^ 21 \<and> map_of groups k \<noteq> None"
  shows "\<exists>ps. processKeys md f og groups ks pages = Some ps \<and> length ps = length pages \<and>
     (\<forall>i < length pages.
        ps ! i =
          (pages ! i)\<lparr>operations := operations (pages ! i) @
            concat (map (drawAnnotation f og (pageWidth (pages ! i)) (pageHeight (pages ! i)))
                     (if int i + 1 \<in> set ks then groupOf groups (int i + 1) else []))\<rparr>)"
  using assms
proof (induction ks arbitrary: pages)
  case Nil
  then show ?case by simp
next
  case (Cons k ks)
  have small: "\<bar>k\<bar> < 10 ^ 21" and d: "distinct ks" and nk: "k \<notin> set ks"
    and rest: "\<forall>k \<in> set ks. \<bar>k\<bar> < 10 ^ 21 \<and> map_of groups k \<noteq> None"
    using Cons.prems by auto
  obtain g where g: "map_of groups k = Some g"
    using Cons.prems(2) by auto
  obtain ps1 where p1: "processPage md f og groups pages k = Some ps1"
    and l1: "length ps1 = length pages"
    and n1: "\<And>i. i < length pages \<Longrightarrow>
        ps1 ! i =
          (if k = int i + 1
           then (pages ! i)\<lparr>operations := operations (pages ! i) @
                  concat (map (drawAnnotation f og (pageWidth (pages ! i)) (pageHeight (pages ! i))) g)\<rparr>
           else pages ! i)"
    using processPage_decimal [OF small g, of md f og pages] by blast
  obtain ps where p: "processKeys md f og groups ks ps1 = Some ps"
    and l: "length ps = length ps1"
    and n: "\<And>i. i < length ps1 \<Longrightarrow>
        ps ! i =
          (ps1 ! i)\<lparr>operations := operations (ps1 ! i) @
            concat (map (drawAnnotation f og (pageWidth (ps1 ! i)) (pageHeight (ps1 ! i)))
                     (if int i + 1 \<in> set ks then groupOf groups (int i + 1) else []))\<rparr>"
    using Cons.IH [OF d rest, of ps1] by blast
  have "ps ! i =
          (pages ! i)\<lparr>operations := operations (pages ! i) @
            concat (map (drawAnnotation f og (pageWidth (pages ! i)) (pageHeight (pages ! i)))
                     (if int i + 1 \<in> set (k # ks) then groupOf groups (int i + 1) else []))\<rparr>"
    if "i < length pages" for i
  proof (cases "k = int i + 1")
    case True
    then have "int i + 1 \<notin> set ks" using nk by simp
    then show ?thesis
      using n [of i] n1 [OF that] that l1 True g by (simp add: groupOf_def)
  next
    case False
    then show ?thesis
      using n [of i] n1 [OF that] that l1 by auto
  qed
  then show ?case using p1 p l l1 by simp
qed

lemma drawAnnotations_pages:
  assumes "\<forall>b \<in> set anns. \<bar>pageIndex b\<bar> < 10 ^ 21"
  shows "\<exists>drawn. drawAnnotations md f og anns pages = Some drawn \<and>
     length drawn = length pages \<and>
     (\<forall>i < length pages.
        drawn ! i =
          (pages ! i)\<lparr>operations := operations (pages ! i) @
            concat (map (drawAnnotation f og (pageWidth (pages ! i)) (pageHeight (pages ! i)))
                     (filter (\<lambda>b. pageIndex b = int i + 1) anns))\<rparr>)"
proof -
  let ?gs = "annotationsByPage anns"
  have keys: "set (objectKeys ?gs) = pageIndex ` set anns"
    by (simp add: set_objectKeys annotationsByPage_keys)
  have d: "distinct (objectKeys ?gs)"
    using distinct_objectKeys [OF annotationsByPage_distinct] .
  have ok: "\<forall>k \<in> set (objectKeys ?gs). \<bar>k\<bar> < 10 ^ 21 \<and> map_of ?gs k \<noteq> None"
  proof
    fix k assume k: "k \<in> set (objectKeys ?gs)"
    then have "\<bar>k\<bar> < 10 ^ 21" using keys assms by auto
    moreover have "map_of ?gs k \<noteq> None"
      using k set_objectKeys [of ?gs] by (simp add: map_of_eq_None_iff)
    ultimately show "\<bar>k\<bar> < 10 ^ 21 \<and> map_of ?gs k \<noteq> None" by simp
  qed
  have gr: "(if int i + 1 \<in> set (objectKeys ?gs) then groupOf ?gs (int i + 1) else [])
      = filter (\<lambda>b. pageIndex b = int i + 1) anns" for i
  proof (cases "int i + 1 \<in> set (objectKeys ?gs)")
    case True
    then show ?thesis by (simp add: annotationsByPage_groupOf)
  next
    case False
    then have "\<forall>b \<in> set anns. pageIndex b \<noteq> int i + 1" using keys by force
    then have "filter (\<lambda>b. pageIndex b = int i + 1) anns = []"
      by (simp add: filter_empty_conv)
    with False show ?thesis by simp
  qed
  show ?thesis
    using processKeys_decimal [OF d ok, of md f og pages]
    by (simp add: drawAnnotations_def gr)
qed

lemma drawAnnotation_shape:
  "(let (ux, uy) = userFrameTable og \<lparr>width = pw, height = ph\<rparr> (ann_x a, ann_y a);
        label = labelText ux uy;
        boxWidth = widthOfTextAtSize f label TEXT_SIZE + PADDING * 2;
        boxHeight = heightAtSize f TEXT_SIZE + PADDING * 2;
        (boxX, boxY) = labelBoxOrigin DOT_RADIUS (ann_x a) (ann_y a) boxWidth boxHeight pw ph
    in drawAnnotation f og pw ph a =
         [DrawCircle (ann_x a) (ann_y a) DOT_RADIUS RED_COLOR 0,
          DrawRectangle boxX (boxY + CORNER_RADIUS) boxWidth (boxHeight - 2 * CORNER_RADIUS)
            RED_COLOR,
          DrawRectangle (boxX + CORNER_RADIUS) boxY (boxWidth - 2 * CORNER_RADIUS) boxHeight
            RED_COLOR,
          DrawCircle (boxX + CORNER_RADIUS) (boxY + CORNER_RADIUS) CORNER_RADIUS RED_COLOR 0,
          DrawCircle (boxX + boxWidth - CORNER_RADIUS) (boxY + CORNER_RADIUS) CORNER_RADIUS
            RED_COLOR 0,
          DrawCircle (boxX + boxWidth - CORNER_RADIUS) (boxY + boxHeight - CORNER_RADIUS)
            CORNER_RADIUS RED_COLOR 0,
          DrawCircle (boxX + CORNER_RADIUS) (boxY + boxHeight - CORNER_RADIUS) CORNER_RADIUS
            RED_COLOR 0,
          DrawText label (boxX + PADDING) (boxY + PADDING + 3 / 2) TEXT_SIZE WHITE_COLOR])"
  by (cases og) (simp_all add: drawAnnotation_def exportDisplayCoordinates_def Let_def
      split: prod.split)

lemma marker_in_drawAnnotation:
  "DrawCircle (ann_x a) (ann_y a) DOT_RADIUS RED_COLOR 0 \<in> set (drawAnnotation f og pw ph a)"
  by (simp add: drawAnnotation_def Let_def case_prod_beta)

text \<open>
  Claim C9, as stated, fails. The loop over the pages skips a group whose page number is
  not a page of the document: an annotation of page 2 exported into a one-page document
  leaves that page unchanged, and its marker is drawn nowhere. And a page number from
  \<open>10^21\<close> on is read back from its key as a single digit: with an annotation of page 2
  and one of page \<open>10^21\<close> in a two-page document, the key \<open>1e+21\<close> is read as page 1,
  which has no group, and the loop throws, so the annotation of page 2 reaches no output
  either.
\<close>

theorem export_skips_unknown_page:
  "drawAnnotations leadingDigit stubFont BOTTOM_LEFT
     [\<lparr>ann_id = ''p'', pageIndex = 2, ann_x = 100, ann_y = 700, displayX = 100, displayY = 92\<rparr>]
     [\<lparr>pageWidth = 612, pageHeight = 792, operations = []\<rparr>]
   = Some [\<lparr>pageWidth = 612, pageHeight = 792, operations = []\<rparr>]
   \<and> \<not> markerOn \<lparr>pageWidth = 612, pageHeight = 792, operations = []\<rparr>
        \<lparr>ann_id = ''p'', pageIndex = 2, ann_x = 100, ann_y = 700, displayX = 100, displayY = 92\<rparr>
   \<and> drawAnnotations leadingDigit stubFont BOTTOM_LEFT
     [\<lparr>ann_id = ''p'', pageIndex = 2, ann_x = 100, ann_y = 700, displayX = 100, displayY = 92\<rparr>,
      \<lparr>ann_id = ''q'', pageIndex = 10 ^ 21, ann_x = 5, ann_y = 5, displayX = 5, displayY = 787\<rparr>]
     [\<lparr>pageWidth = 612, pageHeight = 792, operations = []\<rparr>,
      \<lparr>pageWidth = 612, pageHeight = 792, operations = []\<rparr>]
   = None"
  by (simp add: drawAnnotations_def annotationsByPage_def objectKeys_def isArrayIndex_def
      processPage_def parseIntOfKey_def leadingDigit_def markerOn_def Let_def)

text \<open>
  Claim C9, amended. When every page number in the list is below \<open>10^21\<close> in magnitude,
  the export draws a document that has the pages of the source, and page \<open>i + 1\<close> carries
  its former content followed by the drawing of exactly the annotations with that
  \<open>pageIndex\<close>, in list order. So every annotation whose \<open>pageIndex\<close> is a page of the
  document is drawn on that page, and annotations of other page numbers are skipped
  without error. The drawing of one annotation is the filled disc of the dot radius at
  the canonical \<open>(x, y)\<close>, the label box (two rectangles and four corner discs) placed
  by the flip rule with the measured text size plus padding, and the text
  \<open>x:round(UserFrame.x), y:round(UserFrame.y)\<close> under the active origin convention.
\<close>

theorem export_draws_annotations:
  assumes "\<forall>b \<in> set anns. \<bar>pageIndex b\<bar> < 10 ^ 21"
  shows "(\<exists>drawn. drawAnnotations md f og anns pages = Some drawn
      \<and> length drawn = length pages
      \<and> (\<forall>i < length pages.
           drawn ! i =
             (pages ! i)\<lparr>operations := operations (pages ! i) @
               concat (map (drawAnnotation f og (pageWidth (pages ! i)) (pageHeight (pages ! i)))
                        (filter (\<lambda>b. pageIndex b = int i + 1) anns))\<rparr>)
      \<and> (a \<in> set anns \<and> 1 \<le> pageIndex a \<and> pageIndex a \<le> int (length pages) \<longrightarrow>
           (let i = nat (pageIndex a - 1)
            in markerOn (drawn ! i) a
             \<and> set (drawAnnotation f og (pageWidth (pages ! i)) (pageHeight (pages ! i)) a)
                 \<subseteq> set (operations (drawn ! i)))))
   \<and> (let (ux, uy) = userFrameTable og \<lparr>width = pw, height = ph\<rparr> (ann_x a, ann_y a);
          label = labelText ux uy;
          boxWidth = widthOfTextAtSize f label TEXT_SIZE + PADDING * 2;
          boxHeight = heightAtSize f TEXT_SIZE + PADDING * 2;
          (boxX, boxY) = labelBoxOrigin DOT_RADIUS (ann_x a) (ann_y a) boxWidth boxHeight pw ph
      in drawAnnotation f og pw ph a =
         [DrawCircle (ann_x a) (ann_y a) DOT_RADIUS RED_COLOR 0,
          DrawRectangle boxX (boxY + CORNER_RADIUS) boxWidth (boxHeight - 2 * CORNER_RADIUS)
            RED_COLOR,
          DrawRectangle (boxX + CORNER_RADIUS) boxY (boxWidth - 2 * CORNER_RADIUS) boxHeight
            RED_COLOR,
          DrawCircle (boxX + CORNER_RADIUS) (boxY + CORNER_RADIUS) CORNER_RADIUS RED_COLOR 0,
          DrawCircle (boxX + boxWidth - CORNER_RADIUS) (boxY + CORNER_RADIUS) CORNER_RADIUS
            RED_COLOR 0,
          DrawCircle (boxX + boxWidth - CORNER_RADIUS) (boxY + boxHeight - CORNER_RADIUS)
            CORNER_RADIUS RED_COLOR 0,
          DrawCircle (boxX + CORNER_RADIUS) (boxY + boxHeight - CORNER_RADIUS) CORNER_RADIUS
            RED_COLOR 0,
          DrawText label (boxX + PADDING) (boxY + PADDING + 3 / 2) TEXT_SIZE WHITE_COLOR])"
proof -
  obtain drawn where dr: "drawAnnotations md f og anns pages = Some drawn"
    and len: "length drawn = length pages"
    and pg: "\<forall>i < length pages.
           drawn ! i =
             (pages ! i)\<lparr>operations := operations (pages ! i) @
               concat (map (drawAnnotation f og (pageWidth (pages ! i)) (pageHeight (pages ! i)))
                        (filter (\<lambda>b. pageIndex b = int i + 1) anns))\<rparr>"
    using drawAnnotations_pages [OF assms, of md f og pages] by blast
  have third: "a \<in> set anns \<and> 1 \<le> pageIndex a \<and> pageIndex a \<le> int (length pages) \<longrightarrow>
        (let i = nat (pageIndex a - 1)
         in markerOn (drawn ! i) a
          \<and> set (drawAnnotation f og (pageWidth (pages ! i)) (pageHeight (pages ! i)) a)
              \<subseteq> set (operations (drawn ! i)))"
  proof
    assume h: "a \<in> set anns \<and> 1 \<le> pageIndex a \<and> pageIndex a \<le> int (length pages)"
    let ?i = "nat (pageIndex a - 1)"
    have i: "?i < length pages" and k: "int ?i + 1 = pageIndex a" using h by auto
    have mem: "a \<in> set (filter (\<lambda>b. pageIndex b = int ?i + 1) anns)"
      using h k by simp
    have eq: "operations (drawn ! ?i) =
        operations (pages ! ?i) @
          concat (map (drawAnnotation f og (pageWidth (pages ! ?i)) (pageHeight (pages ! ?i)))
                   (filter (\<lambda>b. pageIndex b = int ?i + 1) anns))"
      using pg i by simp
    have sub: "set (drawAnnotation f og (pageWidth (pages ! ?i)) (pageHeight (pages ! ?i)) a)
        \<subseteq> set (operations (drawn ! ?i))"
      using mem unfolding eq by auto
    then have "markerOn (drawn ! ?i) a"
      using marker_in_drawAnnotation [of a f og "pageWidth (pages ! ?i)" "pageHeight (pages ! ?i)"]
      unfolding markerOn_def by blast
    with sub show "let i = nat (pageIndex a - 1)
         in markerOn (drawn ! i) a
          \<and> set (drawAnnotation f og (pageWidth (pages ! i)) (pageHeight (pages ! i)) a)
              \<subseteq> set (operations (drawn ! i))"
      by (simp add: Let_def)
  qed
  have first: "\<exists>drawn. drawAnnotations md f og anns pages = Some drawn
      \<and> length drawn = length pages
      \<and> (\<forall>i < length pages.
           drawn ! i =
             (pages ! i)\<lparr>operations := operations (pages ! i) @
               concat (map (drawAnnotation f og (pageWidth (pages ! i)) (pageHeight (pages ! i)))
                        (filter (\<lambda>b. pageIndex b = int i + 1) anns))\<rparr>)
      \<and> (a \<in> set anns \<and> 1 \<le> pageIndex a \<and> pageIndex a \<le> int (length pages) \<longrightarrow>
           (let i = nat (pageIndex a - 1)
            in markerOn (drawn ! i) a
             \<and> set (drawAnnotation f og (pageWidth (pages ! i)) (pageHeight (pages ! i)) a)
                 \<subseteq> set (operations (drawn ! i))))"
    using dr len pg third by blast
  show ?thesis
    using first drawAnnotation_shape [of og pw ph a f] by blast
qed

theorem export_draws_annotations_witness:
  "\<bar>pageIndex \<lparr>ann_id = ''p'', pageIndex = 1, ann_x = 600, ann_y = 700,
                 displayX = 600, displayY = 92\<rparr>\<bar> < 10 ^ 21
   \<and> \<bar>pageIndex \<lparr>ann_id = ''q'', pageIndex = 2, ann_x = 5, ann_y = 5,
                 displayX = 5, displayY = 787\<rparr>\<bar> < 10 ^ 21
   \<and> (\<exists>drawn.
        drawAnnotations leadingDigit stubFont TOP_LEFT
          [\<lparr>ann_id = ''p'', pageIndex = 1, ann_x = 600, ann_y = 700,
            displayX = 600, displayY = 92\<rparr>,
           \<lparr>ann_id = ''q'', pageIndex = 2, ann_x = 5, ann_y = 5,
            displayX = 5, displayY = 787\<rparr>]
          [\<lparr>pageWidth = 612, pageHeight = 792, operations = []\<rparr>] = Some drawn
        \<and> markerOn (drawn ! 0)
            \<lparr>ann_id = ''p'', pageIndex = 1, ann_x = 600, ann_y = 700,
              displayX = 600, displayY = 92\<rparr>
        \<and> drawn ! 0
          = \<lparr>pageWidth = 612, pageHeight = 792,
             operations =
               [DrawCircle 600 700 3 (rgb (4 / 5) (1 / 10) (1 / 10)) 0,
                DrawRectangle 549 706 48 6 (rgb (4 / 5) (1 / 10) (1 / 10)),
                DrawRectangle 552 703 42 12 (rgb (4 / 5) (1 / 10) (1 / 10)),
                DrawCircle 552 706 3 (rgb (4 / 5) (1 / 10) (1 / 10)) 0,
                DrawCircle 594 706 3 (rgb (4 / 5) (1 / 10) (1 / 10)) 0,
                DrawCircle 594 712 3 (rgb (4 / 5) (1 / 10) (1 / 10)) 0,
                DrawCircle 552 712 3 (rgb (4 / 5) (1 / 10) (1 / 10)) 0,
                DrawText ''x:600, y:92'' 551 (1413 / 2) 8 (rgb 1 1 1)]\<rparr>)"
proof -
  let ?pg = "\<lparr>pageWidth = 612, pageHeight = 792, operations = []\<rparr>"
  let ?p = "\<lparr>ann_id = ''p'', pageIndex = 1, ann_x = 600, ann_y = 700, displayX = 600, displayY = 92\<rparr>"
  let ?q = "\<lparr>ann_id = ''q'', pageIndex = 2, ann_x = 5, ann_y = 5, displayX = 5, displayY = 787\<rparr>"
  have small: "\<forall>b \<in> set [?p, ?q]. \<bar>pageIndex b\<bar> < 10 ^ 21" by simp
  have h: "?p \<in> set [?p, ?q] \<and> 1 \<le> pageIndex ?p \<and> pageIndex ?p \<le> int (length [?pg])"
    by simp
  from export_draws_annotations [OF small, of leadingDigit stubFont TOP_LEFT "[?pg]" ?p 612 792]
  obtain drawn where dr: "drawAnnotations leadingDigit stubFont TOP_LEFT [?p, ?q] [?pg] = Some drawn"
    and pg: "\<forall>i < length [?pg].
           drawn ! i =
             ([?pg] ! i)\<lparr>operations := operations ([?pg] ! i) @
               concat (map (drawAnnotation stubFont TOP_LEFT (pageWidth ([?pg] ! i)) (pageHeight ([?pg] ! i)))
                        (filter (\<lambda>b. pageIndex b = int i + 1) [?p, ?q]))\<rparr>"
    and mk: "?p \<in> set [?p, ?q] \<and> 1 \<le> pageIndex ?p \<and> pageIndex ?p \<le> int (length [?pg]) \<longrightarrow>
           (let i = nat (pageIndex ?p - 1)
            in markerOn (drawn ! i) ?p
             \<and> set (drawAnnotation stubFont TOP_LEFT (pageWidth ([?pg] ! i)) (pageHeight ([?pg] ! i)) ?p)
                 \<subseteq> set (operations (drawn ! i)))"
    by blast
  have m: "markerOn (drawn ! 0) ?p"
    using mk h by (simp add: Let_def)
  have "drawn ! 0 =
      ([?pg] ! 0)\<lparr>operations := operations ([?pg] ! 0) @
            concat (map (drawAnnotation stubFont TOP_LEFT (pageWidth ([?pg] ! 0)) (pageHeight ([?pg] ! 0)))
                     (filter (\<lambda>b. pageIndex b = int 0 + 1) [?p, ?q]))\<rparr>"
    using pg by simp
  then have e: "drawn ! 0 =
      \<lparr>pageWidth = 612, pageHeight = 792,
         operations =
           [DrawCircle 600 700 3 (rgb (4 / 5) (1 / 10) (1 / 10)) 0,
            DrawRectangle 549 706 48 6 (rgb (4 / 5) (1 / 10) (1 / 10)),
            DrawRectangle 552 703 42 12 (rgb (4 / 5) (1 / 10) (1 / 10)),
            DrawCircle 552 706 3 (rgb (4 / 5) (1 / 10) (1 / 10)) 0,
            DrawCircle 594 706 3 (rgb (4 / 5) (1 / 10) (1 / 10)) 0,
            DrawCircle 594 712 3 (rgb (4 / 5) (1 / 10) (1 / 10)) 0,
            DrawCircle 552 712 3 (rgb (4 / 5) (1 / 10) (1 / 10)) 0,
            DrawText ''x:600, y:92'' 551 (1413 / 2) 8 (rgb 1 1 1)]\<rparr>"
    by (simp add: drawAnnotation_def exportDisplayCoordinates_def labelText_def
        numberToString_def Math_round_def stubFont_def labelBoxOrigin_def Let_def
        DOT_RADIUS_def CORNER_RADIUS_def TEXT_SIZE_def PADDING_def RED_COLOR_def WHITE_COLOR_def)
  have s2: "\<bar>pageIndex ?p\<bar> < 10 ^ 21 \<and> \<bar>pageIndex ?q\<bar> < 10 ^ 21" by simp
  show ?thesis using s2 dr m e by blast
qed

end
